theory Spec2Isabelle
  imports Main "HOL-Library.Sublist"
begin

section \<open>Byte strings and the library routines the configuration compiler calls\<close>

text \<open>
  Go strings are byte sequences; they are modelled as \<open>string\<close> (a list of 8-bit
  characters). Go's \<open>int\<close> is 64 bits wide; it is modelled as \<open>int\<close> with the
  wrap-around written out by \<open>wrap64\<close> where the source does arithmetic on it.
\<close>

definition wrap64 :: "int \<Rightarrow> int" where
  "wrap64 x = (x + 2 ^ 63) mod 2 ^ 64 - 2 ^ 63"

definition byte :: "char \<Rightarrow> nat" where
  "byte c = of_char c"

definition digitChar :: "nat \<Rightarrow> char" where
  "digitChar n = ''0123456789'' ! n"

text \<open>\<open>fmt.Sprintf("%d", n)\<close>: the decimal digits, with a minus sign when negative.\<close>

function showNat :: "int \<Rightarrow> string" where
  "showNat n =
     (if n < 10 then [digitChar (nat n)]
      else showNat (n div 10) @ [digitChar (nat (n mod 10))])"
  by pat_completeness auto
termination
  by (relation "measure nat") auto

declare showNat.simps [simp del]

definition showInt :: "int \<Rightarrow> string" where
  "showInt i = (if i < 0 then CHR ''-'' # showNat (- i) else showNat i)"

text \<open>
  \<open>strconv.Atoi\<close>: an optional sign, then one or more decimal digits, and the value
  must fit a 64-bit signed integer; anything else is an error (\<open>None\<close>).
\<close>

definition isDigit :: "char \<Rightarrow> bool" where
  "isDigit c \<longleftrightarrow> 48 \<le> byte c \<and> byte c \<le> 57"

fun digitsValue :: "int \<Rightarrow> string \<Rightarrow> int option" where
  "digitsValue acc [] = Some acc"
| "digitsValue acc (c # cs) =
     (if isDigit c then digitsValue (acc * 10 + (int (byte c) - 48)) cs else None)"

definition Atoi :: "string \<Rightarrow> int option" where
  "Atoi s =
     (case s of
        [] \<Rightarrow> None
      | c # r \<Rightarrow>
          (let neg = (c = CHR ''-'');
               ds = (if c = CHR ''-'' \<or> c = CHR ''+'' then r else s)
           in if ds = [] then None
              else (case digitsValue 0 ds of
                      None \<Rightarrow> None
                    | Some n \<Rightarrow>
                        (let v = (if neg then - n else n)
                         in if v < - (2 ^ 63) \<or> 2 ^ 63 - 1 < v then None else Some v))))"

text \<open>\<open>strings.LastIndex(s, ":")\<close> for a one-byte separator: the last index, or -1.\<close>

fun LastIndexFrom :: "nat \<Rightarrow> int \<Rightarrow> char \<Rightarrow> string \<Rightarrow> int" where
  "LastIndexFrom i found sep [] = found"
| "LastIndexFrom i found sep (c # cs) =
     LastIndexFrom (Suc i) (if c = sep then int i else found) sep cs"

definition LastIndex :: "string \<Rightarrow> char \<Rightarrow> int" where
  "LastIndex s sep = LastIndexFrom 0 (- 1) sep s"

section \<open>Configuration model (config.go)\<close>

record RealityConfig =
  rc_SNI :: string
  rc_PrivateKey :: string
  rc_PublicKey :: string
  rc_ShortIDs :: "string list"

record FallbackConfig =
  fb_Protocol :: string
  fb_Listen :: string
  fb_Transport :: string
  fb_Path :: string

record RotationConfig =
  rot_Enabled :: bool
  rot_Provider :: string
  rot_Interval :: string
  rot_CFAPIToken :: string
  rot_CFAccountID :: string
  rot_CFZoneID :: string
  rot_AWSRegion :: string
  rot_AWSKey :: string
  rot_AWSSecret :: string

record PaymentConfig =
  pay_Enabled :: bool
  pay_BTCPayURL :: string
  pay_BTCPayKey :: string
  pay_StoreID :: string

record Config =
  cfg_Listen :: string
  cfg_Protocol :: string
  cfg_UUID :: string
  cfg_Reality :: RealityConfig
  cfg_Fingerprint :: string
  cfg_Fallbacks :: "FallbackConfig list"
  cfg_LogLevel :: string
  cfg_SportsMode :: bool
  cfg_Rotation :: RotationConfig
  cfg_Payment :: PaymentConfig

record ClientConfig =
  cc_Server :: string
  cc_UUID :: string
  cc_SNI :: string
  cc_Fingerprint :: string
  cc_PublicKey :: string
  cc_ShortID :: string
  cc_LocalListen :: string
  cc_HTTPListen :: string
  cc_LogLevel :: string
  cc_SportsMode :: bool
  cc_APIListen :: string

datatype validate_error =
    ListenRequired
  | UUIDRequired
  | SNIRequired
  | PrivateKeyRequired
  | UnsupportedProtocol string
  | ServerRequired
  | PublicKeyRequired

text \<open>
  \<open>Config.Validate\<close> fills defaults in place and returns an error or nil. The model
  returns the error (\<open>None\<close> is nil) together with the configuration as the call leaves
  it: a default written before a later check fails stays written.
\<close>

definition Validate :: "Config \<Rightarrow> validate_error option \<times> Config" where
  "Validate c =
     (if cfg_Listen c = [] then (Some ListenRequired, c)
      else let c1 = (if cfg_Protocol c = [] then c\<lparr>cfg_Protocol := ''vless''\<rparr> else c)
           in if cfg_UUID c1 = [] then (Some UUIDRequired, c1)
              else if rc_SNI (cfg_Reality c1) = [] then (Some SNIRequired, c1)
              else if rc_PrivateKey (cfg_Reality c1) = [] then (Some PrivateKeyRequired, c1)
              else let c2 = (if cfg_Fingerprint c1 = [] then c1\<lparr>cfg_Fingerprint := ''chrome''\<rparr>
                             else c1)
                   in if cfg_Protocol c2 \<notin> {''vless'', ''trojan''}
                      then (Some (UnsupportedProtocol (cfg_Protocol c2)), c2)
                      else (None, c2))"

definition ValidateClient :: "ClientConfig \<Rightarrow> validate_error option \<times> ClientConfig" where
  "ValidateClient c =
     (if cc_Server c = [] then (Some ServerRequired, c)
      else if cc_UUID c = [] then (Some UUIDRequired, c)
      else if cc_SNI c = [] then (Some SNIRequired, c)
      else if cc_PublicKey c = [] then (Some PublicKeyRequired, c)
      else let c1 = (if cc_LocalListen c = [] then c\<lparr>cc_LocalListen := ''127.0.0.1:1080''\<rparr>
                     else c);
               c2 = (if cc_Fingerprint c1 = [] then c1\<lparr>cc_Fingerprint := ''chrome''\<rparr> else c1);
               c3 = (if cc_APIListen c2 = [] then c2\<lparr>cc_APIListen := ''127.0.0.1:9876''\<rparr> else c2)
           in (None, c3))"

section \<open>Address helpers (config_builder.go)\<close>

datatype addr_error =
    EmptyAddress
  | InvalidPort string
  | NoPort string

definition splitHostPort :: "string \<Rightarrow> addr_error + string \<times> int" where
  "splitHostPort addr =
     (if addr = [] then Inl EmptyAddress
      else if hd addr = CHR '':'' then
        (case Atoi (tl addr) of
           None \<Rightarrow> Inl (InvalidPort addr)
         | Some port \<Rightarrow> Inr (''0.0.0.0'', port))
      else
        (let idx = LastIndex addr (CHR '':'')
         in if idx < 0 then Inl (NoPort addr)
            else (case Atoi (drop (nat idx + 1) addr) of
                    None \<Rightarrow> Inl (InvalidPort addr)
                  | Some port \<Rightarrow> Inr (take (nat idx) addr, port))))"

definition parseServerAddr :: "string \<Rightarrow> string \<times> int" where
  "parseServerAddr addr =
     (let idx = LastIndex addr (CHR '':'')
      in if idx < 0 then (addr, 443)
         else (case Atoi (drop (nat idx + 1) addr) of
                 None \<Rightarrow> (addr, 443)
               | Some port \<Rightarrow> (take (nat idx) addr, port)))"

fun coalesce :: "string list \<Rightarrow> string" where
  "coalesce [] = []"
| "coalesce (v # vs) = (if v \<noteq> [] then v else coalesce vs)"

section \<open>JSON values and \<open>encoding/json\<close>\<close>

text \<open>
  What \<open>json.Marshal\<close> writes is modelled in two steps: the value is turned into a
  tree (\<open>json\<close>), and \<open>Marshal\<close> renders the tree compactly, as the library does: no
  white space, object members in the order given (struct fields in declaration order,
  map keys sorted), strings escaped by \<open>appendString\<close>.
\<close>

datatype json =
    JNull
  | JBool bool
  | JNum int
  | JStr string
  | JArr "json list"
  | JObj "(string \<times> json) list"

definition hexDigit :: "nat \<Rightarrow> char" where
  "hexDigit n = ''0123456789abcdef'' ! n"

definition backslash :: char where
  "backslash = CHR 0x5C"

definition dquote :: char where
  "dquote = CHR 0x22"

text \<open>
  \<open>htmlSafeSet\<close>: the ASCII bytes that are written as they are (HTML escaping is on
  for \<open>json.Marshal\<close>): everything from space to DEL but the double quote, the
  backslash, \<open>&\<close>, \<open><\<close> and \<open>>\<close>.
\<close>

definition htmlSafe :: "char \<Rightarrow> bool" where
  "htmlSafe c \<longleftrightarrow>
     32 \<le> byte c \<and> byte c < 128 \<and> c \<noteq> dquote \<and> c \<noteq> backslash \<and>
     c \<noteq> CHR ''&'' \<and> c \<noteq> CHR ''<'' \<and> c \<noteq> CHR ''>''"

definition escapeByte :: "char \<Rightarrow> string" where
  "escapeByte c =
     (if c = backslash \<or> c = dquote then [backslash, c]
      else if c = CHR 0x08 then [backslash, CHR ''b'']
      else if c = CHR 0x0C then [backslash, CHR ''f'']
      else if c = CHR 0x0A then [backslash, CHR ''n'']
      else if c = CHR 0x0D then [backslash, CHR ''r'']
      else if c = CHR 0x09 then [backslash, CHR ''t'']
      else backslash # ''u00'' @ [hexDigit (byte c div 16), hexDigit (byte c mod 16)])"

text \<open>
  \<open>utf8.DecodeRuneInString\<close>, as far as the encoder needs it: the length of the valid
  UTF-8 sequence at the head of the bytes, or 0 where the decoder reports
  \<open>RuneError\<close> with width 1.
\<close>

definition isCont :: "char \<Rightarrow> bool" where
  "isCont c \<longleftrightarrow> 128 \<le> byte c \<and> byte c \<le> 191"

definition runeSize :: "string \<Rightarrow> nat" where
  "runeSize s =
     (case s of
        [] \<Rightarrow> 0
      | c0 # r \<Rightarrow>
          (let b0 = byte c0
           in if 194 \<le> b0 \<and> b0 \<le> 223 then
                (case r of c1 # _ \<Rightarrow> if isCont c1 then 2 else 0 | _ \<Rightarrow> 0)
              else if 224 \<le> b0 \<and> b0 \<le> 239 then
                (case r of
                   c1 # c2 # _ \<Rightarrow>
                     if (if b0 = 224 then 160 else 128) \<le> byte c1 \<and>
                        byte c1 \<le> (if b0 = 237 then 159 else 191) \<and> isCont c2
                     then 3 else 0
                 | _ \<Rightarrow> 0)
              else if 240 \<le> b0 \<and> b0 \<le> 244 then
                (case r of
                   c1 # c2 # c3 # _ \<Rightarrow>
                     if (if b0 = 240 then 144 else 128) \<le> byte c1 \<and>
                        byte c1 \<le> (if b0 = 244 then 143 else 191) \<and> isCont c2 \<and> isCont c3
                     then 4 else 0
                 | _ \<Rightarrow> 0)
              else 0))"

text \<open>
  \<open>appendString\<close> without the surrounding quotes: unsafe ASCII bytes are escaped,
  invalid UTF-8 becomes the escape of U+FFFD, U+2028 and U+2029 are escaped, every other
  sequence is copied.
\<close>

fun appendString :: "string \<Rightarrow> string" where
  "appendString [] = []"
| "appendString (c # cs) =
     (if byte c < 128 then (if htmlSafe c then [c] else escapeByte c) @ appendString cs
      else (let n = runeSize (c # cs)
            in if n = 0 then backslash # ''ufffd'' @ appendString cs
               else if take 3 (c # cs) = [CHR 0xE2, CHR 0x80, CHR 0xA8]
                 then backslash # ''u2028'' @ appendString (drop 2 cs)
               else if take 3 (c # cs) = [CHR 0xE2, CHR 0x80, CHR 0xA9]
                 then backslash # ''u2029'' @ appendString (drop 2 cs)
               else take n (c # cs) @ appendString (drop (n - 1) cs)))"

definition encodeString :: "string \<Rightarrow> string" where
  "encodeString s = dquote # appendString s @ [dquote]"

fun Marshal :: "json \<Rightarrow> string"
  and marshalElems :: "json list \<Rightarrow> string"
  and marshalMembers :: "(string \<times> json) list \<Rightarrow> string" where
  "Marshal JNull = ''null''"
| "Marshal (JBool b) = (if b then ''true'' else ''false'')"
| "Marshal (JNum n) = showInt n"
| "Marshal (JStr s) = encodeString s"
| "Marshal (JArr xs) = CHR ''['' # marshalElems xs @ '']''"
| "Marshal (JObj kvs) = CHR ''{'' # marshalMembers kvs @ ''}''"
| "marshalElems [] = []"
| "marshalElems [x] = Marshal x"
| "marshalElems (x # y # ys) = Marshal x @ CHR '','' # marshalElems (y # ys)"
| "marshalMembers [] = []"
| "marshalMembers [(k, v)] = encodeString k @ CHR '':'' # Marshal v"
| "marshalMembers ((k, v) # m # ms) =
     encodeString k @ CHR '':'' # Marshal v @ CHR '','' # marshalMembers (m # ms)"

section \<open>The generated document (config_builder.go)\<close>

text \<open>
  The structs of the generated document. A pointer field tagged \<open>omitempty\<close> is an
  \<open>option\<close>. A \<open>json.RawMessage\<close> field holds the bytes \<open>json.Marshal\<close> made of a
  map; it is kept as the tree whose rendering those bytes are, and the surrounding
  document writes them unchanged.
\<close>

record xrayLog =
  xl_LogLevel :: string

record xrayRealityStream =
  rs_Show :: bool
  rs_Dest :: string
  rs_Xver :: int
  rs_ServerNames :: "string list"
  rs_PrivateKey :: string
  rs_ShortIDs :: "string list"
  rs_ServerName :: string
  rs_Fingerprint :: string
  rs_PublicKey :: string
  rs_ShortID :: string

record xrayTLSStream =
  tls_ServerName :: string

record xrayWSStream =
  ws_Path :: string

record xrayStream =
  st_Network :: string
  st_Security :: string
  st_Reality :: "xrayRealityStream option"
  st_TLS :: "xrayTLSStream option"
  st_WS :: "xrayWSStream option"

record xrayInbound =
  in_Tag :: string
  in_Listen :: string
  in_Port :: int
  in_Protocol :: string
  in_Settings :: json
  in_Stream :: "xrayStream option"

record xrayOutbound =
  out_Tag :: string
  out_Protocol :: string
  out_Settings :: "json option"
  out_Stream :: "xrayStream option"

record xrayFullConfig =
  xc_Log :: "xrayLog option"
  xc_Inbounds :: "xrayInbound list"
  xc_Outbounds :: "xrayOutbound list"

text \<open>The struct tags: the member name, and \<open>omitempty\<close> dropping an empty value.\<close>

definition omitString :: "string \<Rightarrow> string \<Rightarrow> (string \<times> json) list" where
  "omitString k v = (if v = [] then [] else [(k, JStr v)])"

definition omitStrings :: "string \<Rightarrow> string list \<Rightarrow> (string \<times> json) list" where
  "omitStrings k vs = (if vs = [] then [] else [(k, JArr (map JStr vs))])"

definition omitInt :: "string \<Rightarrow> int \<Rightarrow> (string \<times> json) list" where
  "omitInt k v = (if v = 0 then [] else [(k, JNum v)])"

definition omitPtr :: "string \<Rightarrow> ('a \<Rightarrow> json) \<Rightarrow> 'a option \<Rightarrow> (string \<times> json) list" where
  "omitPtr k f p = (case p of None \<Rightarrow> [] | Some v \<Rightarrow> [(k, f v)])"

definition logJSON :: "xrayLog \<Rightarrow> json" where
  "logJSON l = JObj [(''loglevel'', JStr (xl_LogLevel l))]"

definition realityJSON :: "xrayRealityStream \<Rightarrow> json" where
  "realityJSON r =
     JObj ([(''show'', JBool (rs_Show r))]
           @ omitString ''dest'' (rs_Dest r)
           @ omitInt ''xver'' (rs_Xver r)
           @ omitStrings ''serverNames'' (rs_ServerNames r)
           @ omitString ''privateKey'' (rs_PrivateKey r)
           @ omitStrings ''shortIds'' (rs_ShortIDs r)
           @ omitString ''serverName'' (rs_ServerName r)
           @ omitString ''fingerprint'' (rs_Fingerprint r)
           @ omitString ''publicKey'' (rs_PublicKey r)
           @ omitString ''shortId'' (rs_ShortID r))"

definition tlsJSON :: "xrayTLSStream \<Rightarrow> json" where
  "tlsJSON t = JObj (omitString ''serverName'' (tls_ServerName t))"

definition wsJSON :: "xrayWSStream \<Rightarrow> json" where
  "wsJSON w = JObj [(''path'', JStr (ws_Path w))]"

definition streamJSON :: "xrayStream \<Rightarrow> json" where
  "streamJSON s =
     JObj ([(''network'', JStr (st_Network s)), (''security'', JStr (st_Security s))]
           @ omitPtr ''realitySettings'' realityJSON (st_Reality s)
           @ omitPtr ''tlsSettings'' tlsJSON (st_TLS s)
           @ omitPtr ''wsSettings'' wsJSON (st_WS s))"

definition inboundJSON :: "xrayInbound \<Rightarrow> json" where
  "inboundJSON i =
     JObj ([(''tag'', JStr (in_Tag i))]
           @ omitString ''listen'' (in_Listen i)
           @ [(''port'', JNum (in_Port i)),
              (''protocol'', JStr (in_Protocol i)),
              (''settings'', in_Settings i)]
           @ omitPtr ''streamSettings'' streamJSON (in_Stream i))"

definition outboundJSON :: "xrayOutbound \<Rightarrow> json" where
  "outboundJSON ob =
     JObj ([(''tag'', JStr (out_Tag ob)), (''protocol'', JStr (out_Protocol ob))]
           @ omitPtr ''settings'' (\<lambda>v. v) (out_Settings ob)
           @ omitPtr ''streamSettings'' streamJSON (out_Stream ob))"

definition fullConfigJSON :: "xrayFullConfig \<Rightarrow> json" where
  "fullConfigJSON xc =
     JObj (omitPtr ''log'' logJSON (xc_Log xc)
           @ [(''inbounds'', JArr (map inboundJSON (xc_Inbounds xc))),
              (''outbounds'', JArr (map outboundJSON (xc_Outbounds xc)))])"

datatype build_error =
    ConfigNil
  | InvalidListenAddress addr_error
  | InvalidFallbackListenAddress addr_error
  | ClientConfigNil
  | InvalidLocalListen addr_error

text \<open>
  The body of the loop of \<open>BuildServerJSON\<close> over \<open>cfg.Fallbacks\<close>: the inbound made
  for the binding \<open>fb\<close> at index \<open>i\<close>, once its listen address has been split.
\<close>

definition fallbackInbound :: "nat \<Rightarrow> FallbackConfig \<Rightarrow> string \<Rightarrow> int \<Rightarrow> xrayInbound" where
  "fallbackInbound i fb fbHost fbPort =
     \<lparr> in_Tag = ''fallback-'' @ fb_Protocol fb @ ''-'' @ showInt (int i),
       in_Listen = fbHost,
       in_Port = fbPort,
       in_Protocol = fb_Protocol fb,
       in_Settings = JObj [],
       in_Stream =
         (if fb_Transport fb = ''ws''
          then Some \<lparr> st_Network = ''ws'', st_Security = ''tls'',
                      st_Reality = None, st_TLS = None,
                      st_WS = Some \<lparr> ws_Path = fb_Path fb \<rparr> \<rparr>
          else None) \<rparr>"

text \<open>
  The loop itself: \<open>i\<close> is the index of the binding at the head, \<open>inbounds\<close> is
  \<open>xc.Inbounds\<close> so far. The first address that does not split ends the build.
\<close>

fun addFallbacks ::
  "nat \<Rightarrow> FallbackConfig list \<Rightarrow> xrayInbound list \<Rightarrow> build_error + xrayInbound list" where
  "addFallbacks i [] inbounds = Inr inbounds"
| "addFallbacks i (fb # fbs) inbounds =
     (case splitHostPort (fb_Listen fb) of
        Inl err \<Rightarrow> Inl (InvalidFallbackListenAddress err)
      | Inr (fbHost, fbPort) \<Rightarrow>
          addFallbacks (Suc i) fbs (inbounds @ [fallbackInbound i fb fbHost fbPort]))"

text \<open>
  The first inbound of the server document, as the struct literal of \<open>BuildServerJSON\<close>
  builds it from the split listen address. The keys of the settings maps are listed in
  sorted order, the order in which the library writes a map.
\<close>

definition primaryInbound :: "Config \<Rightarrow> string \<Rightarrow> int \<Rightarrow> xrayInbound" where
  "primaryInbound cfg host port =
     (let shortIDs = (if length (rc_ShortIDs (cfg_Reality cfg)) = 0 then [[]]
                      else rc_ShortIDs (cfg_Reality cfg));
          vlessSettings =
            JObj [(''clients'',
                     JArr [JObj [(''flow'', JStr ''xtls-rprx-vision''),
                                 (''id'', JStr (cfg_UUID cfg))]]),
                  (''decryption'', JStr ''none'')]
      in \<lparr> in_Tag = ''vless-reality'',
           in_Listen = host,
           in_Port = port,
           in_Protocol = ''vless'',
           in_Settings = vlessSettings,
           in_Stream = Some
             \<lparr> st_Network = ''tcp'', st_Security = ''reality'',
               st_Reality = Some
                 \<lparr> rs_Show = False,
                   rs_Dest = rc_SNI (cfg_Reality cfg) @ '':443'',
                   rs_Xver = 0,
                   rs_ServerNames = [rc_SNI (cfg_Reality cfg)],
                   rs_PrivateKey = rc_PrivateKey (cfg_Reality cfg),
                   rs_ShortIDs = shortIDs,
                   rs_ServerName = [], rs_Fingerprint = [],
                   rs_PublicKey = [], rs_ShortID = [] \<rparr>,
               st_TLS = None, st_WS = None \<rparr> \<rparr>)"

text \<open>
  \<open>BuildServerXC\<close> is \<open>BuildServerJSON\<close> up to its last line: the value \<open>xc\<close> handed
  to \<open>json.Marshal\<close>, or the error returned before.
\<close>

definition BuildServerXC :: "Config option \<Rightarrow> build_error + xrayFullConfig" where
  "BuildServerXC cfgp =
     (case cfgp of
        None \<Rightarrow> Inl ConfigNil
      | Some cfg \<Rightarrow>
          (case splitHostPort (cfg_Listen cfg) of
             Inl err \<Rightarrow> Inl (InvalidListenAddress err)
           | Inr (host, port) \<Rightarrow>
               (case addFallbacks 0 (cfg_Fallbacks cfg) [primaryInbound cfg host port] of
                  Inl err \<Rightarrow> Inl err
                | Inr inbounds \<Rightarrow>
                    Inr \<lparr> xc_Log = Some \<lparr> xl_LogLevel = coalesce [cfg_LogLevel cfg, ''info''] \<rparr>,
                          xc_Inbounds = inbounds,
                          xc_Outbounds =
                            [\<lparr> out_Tag = ''direct'', out_Protocol = ''freedom'',
                                out_Settings = None, out_Stream = None \<rparr>,
                             \<lparr> out_Tag = ''block'', out_Protocol = ''blackhole'',
                                out_Settings = None, out_Stream = None \<rparr>] \<rparr>)))"

definition BuildServerJSON :: "Config option \<Rightarrow> build_error + string" where
  "BuildServerJSON cfgp =
     (case BuildServerXC cfgp of
        Inl err \<Rightarrow> Inl err
      | Inr xc \<Rightarrow> Inr (Marshal (fullConfigJSON xc)))"

text \<open>
  \<open>BuildClientXC\<close> is \<open>BuildClientJSON\<close> up to its last line. The remote address goes
  through \<open>parseServerAddr\<close>, which has no error result; the secondary inbound is
  appended only when its address is set and splits.
\<close>

definition BuildClientXC :: "ClientConfig option \<Rightarrow> build_error + xrayFullConfig" where
  "BuildClientXC cfgp =
     (case cfgp of
        None \<Rightarrow> Inl ClientConfigNil
      | Some cfg \<Rightarrow>
          (case splitHostPort (cc_LocalListen cfg) of
             Inl err \<Rightarrow> Inl (InvalidLocalListen err)
           | Inr (localHost, localPort) \<Rightarrow>
               (let (serverHost, serverPort) = parseServerAddr (cc_Server cfg);
                    socksSettings = JObj [(''udp'', JBool True)];
                    vlessOutSettings =
                      JObj [(''vnext'',
                               JArr [JObj [(''address'', JStr serverHost),
                                           (''port'', JNum serverPort),
                                           (''users'',
                                              JArr [JObj [(''encryption'', JStr ''none''),
                                                          (''flow'', JStr ''xtls-rprx-vision''),
                                                          (''id'', JStr (cc_UUID cfg))]])]])];
                    fingerprint = (if cc_Fingerprint cfg = [] then ''chrome''
                                   else cc_Fingerprint cfg);
                    socksIn =
                      \<lparr> in_Tag = ''socks-in'', in_Listen = localHost, in_Port = localPort,
                        in_Protocol = ''socks'', in_Settings = socksSettings,
                        in_Stream = None \<rparr>;
                    outbounds =
                      [\<lparr> out_Tag = ''proxy'', out_Protocol = ''vless'',
                          out_Settings = Some vlessOutSettings,
                          out_Stream = Some
                            \<lparr> st_Network = ''tcp'', st_Security = ''reality'',
                              st_Reality = Some
                                \<lparr> rs_Show = False, rs_Dest = [], rs_Xver = 0,
                                  rs_ServerNames = [], rs_PrivateKey = [], rs_ShortIDs = [],
                                  rs_ServerName = cc_SNI cfg,
                                  rs_Fingerprint = fingerprint,
                                  rs_PublicKey = cc_PublicKey cfg,
                                  rs_ShortID = cc_ShortID cfg \<rparr>,
                              st_TLS = None, st_WS = None \<rparr> \<rparr>,
                       \<lparr> out_Tag = ''direct'', out_Protocol = ''freedom'',
                          out_Settings = None, out_Stream = None \<rparr>];
                    inbounds =
                      (if cc_HTTPListen cfg \<noteq> [] then
                         (case splitHostPort (cc_HTTPListen cfg) of
                            Inr (hHost, hPort) \<Rightarrow>
                              [socksIn,
                               \<lparr> in_Tag = ''http-in'', in_Listen = hHost, in_Port = hPort,
                                 in_Protocol = ''http'',
                                 in_Settings = JObj [(''allowTransparent'', JBool False)],
                                 in_Stream = None \<rparr>]
                          | Inl err \<Rightarrow> [socksIn])
                       else [socksIn])
                in Inr \<lparr> xc_Log = Some \<lparr> xl_LogLevel = coalesce [cc_LogLevel cfg, ''info''] \<rparr>,
                         xc_Inbounds = inbounds,
                         xc_Outbounds = outbounds \<rparr>)))"

definition BuildClientJSON :: "ClientConfig option \<Rightarrow> build_error + string" where
  "BuildClientJSON cfgp =
     (case BuildClientXC cfgp of
        Inl err \<Rightarrow> Inl err
      | Inr xc \<Rightarrow> Inr (Marshal (fullConfigJSON xc)))"

text \<open>
  The error kinds of the specification: \<open>InvalidInput\<close> is a nil configuration,
  \<open>BadAddress\<close> is an address that does not split into host and port.
\<close>

fun isInvalidInput :: "build_error \<Rightarrow> bool" where
  "isInvalidInput ConfigNil = True"
| "isInvalidInput ClientConfigNil = True"
| "isInvalidInput _ = False"

fun isBadAddress :: "build_error \<Rightarrow> bool" where
  "isBadAddress (InvalidListenAddress _) = True"
| "isBadAddress (InvalidFallbackListenAddress _) = True"
| "isBadAddress (InvalidLocalListen _) = True"
| "isBadAddress _ = False"

section \<open>Well-formedness of a document, as \<open>json.Unmarshal\<close> checks it\<close>

text \<open>
  \<open>json.Unmarshal\<close> into a \<open>json.RawMessage\<close> succeeds exactly when the input is one
  well-formed JSON value, with optional white space around it and between its tokens.
  The check is modelled as a recursive descent over the bytes. \<open>scanValue\<close>,
  \<open>scanElems\<close> and \<open>scanMembers\<close> return the input that follows what they accept, or
  \<open>None\<close>; their first argument bounds the number of nested calls, and \<open>jsonValid\<close>
  starts them with more than the length of the input, which no input exhausts (every
  call but the first follows a byte consumed since the call before the last).
\<close>

definition isSpace :: "char \<Rightarrow> bool" where
  "isSpace c \<longleftrightarrow> c = CHR '' '' \<or> c = CHR 0x09 \<or> c = CHR 0x0D \<or> c = CHR 0x0A"

fun skipSpace :: "string \<Rightarrow> string" where
  "skipSpace [] = []"
| "skipSpace (c # cs) = (if isSpace c then skipSpace cs else c # cs)"

definition isHex :: "char \<Rightarrow> bool" where
  "isHex c \<longleftrightarrow> isDigit c \<or> (97 \<le> byte c \<and> byte c \<le> 102) \<or> (65 \<le> byte c \<and> byte c \<le> 70)"

text \<open>A string, after its opening quote: up to and including the closing quote.\<close>

fun scanString :: "string \<Rightarrow> string option"
  and scanEscape :: "string \<Rightarrow> string option" where
  "scanString [] = None"
| "scanString (c # cs) =
     (if c = dquote then Some cs
      else if c = backslash then scanEscape cs
      else if byte c < 32 then None
      else scanString cs)"
| "scanEscape [] = None"
| "scanEscape (e # cs) =
     (if e = dquote \<or> e = backslash \<or> e = CHR ''/'' \<or> e = CHR ''b'' \<or> e = CHR ''f'' \<or>
         e = CHR ''n'' \<or> e = CHR ''r'' \<or> e = CHR ''t''
      then scanString cs
      else if e = CHR ''u'' then
        (case cs of
           h1 # h2 # h3 # h4 # r \<Rightarrow>
             if isHex h1 \<and> isHex h2 \<and> isHex h3 \<and> isHex h4 then scanString r else None
         | _ \<Rightarrow> None)
      else None)"

fun scanDigits :: "string \<Rightarrow> string" where
  "scanDigits [] = []"
| "scanDigits (c # cs) = (if isDigit c then scanDigits cs else c # cs)"

definition scanExp :: "string \<Rightarrow> string option" where
  "scanExp s =
     (case s of
        [] \<Rightarrow> Some s
      | e # r \<Rightarrow>
          if e = CHR ''e'' \<or> e = CHR ''E'' then
            (let r1 = (case r of
                         [] \<Rightarrow> r
                       | sign # r' \<Rightarrow> if sign = CHR ''+'' \<or> sign = CHR ''-'' then r' else r)
             in case r1 of
                  [] \<Rightarrow> None
                | d # r2 \<Rightarrow> if isDigit d then Some (scanDigits r2) else None)
          else Some s)"

definition scanFrac :: "string \<Rightarrow> string option" where
  "scanFrac s =
     (case s of
        [] \<Rightarrow> scanExp s
      | dot # r \<Rightarrow>
          if dot = CHR ''.'' then
            (case r of
               [] \<Rightarrow> None
             | d # r' \<Rightarrow> if isDigit d then scanExp (scanDigits r') else None)
          else scanExp s)"

definition scanNumber :: "string \<Rightarrow> string option" where
  "scanNumber s =
     (let s1 = (case s of [] \<Rightarrow> s | c # r \<Rightarrow> if c = CHR ''-'' then r else s)
      in case s1 of
           [] \<Rightarrow> None
         | c # r \<Rightarrow>
             if c = CHR ''0'' then scanFrac r
             else if isDigit c then scanFrac (scanDigits r)
             else None)"

fun scanLiteral :: "string \<Rightarrow> string \<Rightarrow> string option" where
  "scanLiteral [] s = Some s"
| "scanLiteral (l # ls) [] = None"
| "scanLiteral (l # ls) (c # cs) = (if c = l then scanLiteral ls cs else None)"

fun scanValue :: "nat \<Rightarrow> string \<Rightarrow> string option"
  and scanElems :: "nat \<Rightarrow> string \<Rightarrow> string option"
  and scanMembers :: "nat \<Rightarrow> string \<Rightarrow> string option" where
  "scanValue 0 s = None"
| "scanValue (Suc n) s =
     (case skipSpace s of
        [] \<Rightarrow> None
      | c # cs \<Rightarrow>
          if c = CHR ''{'' then
            (case skipSpace cs of
               [] \<Rightarrow> None
             | d # ds \<Rightarrow> if d = CHR ''}'' then Some ds else scanMembers n (d # ds))
          else if c = CHR ''['' then
            (case skipSpace cs of
               [] \<Rightarrow> None
             | d # ds \<Rightarrow> if d = CHR '']'' then Some ds else scanElems n (d # ds))
          else if c = dquote then scanString cs
          else if c = CHR ''t'' then scanLiteral ''rue'' cs
          else if c = CHR ''f'' then scanLiteral ''alse'' cs
          else if c = CHR ''n'' then scanLiteral ''ull'' cs
          else if c = CHR ''-'' \<or> isDigit c then scanNumber (c # cs)
          else None)"
| "scanElems 0 s = None"
| "scanElems (Suc n) s =
     (case scanValue n s of
        None \<Rightarrow> None
      | Some r \<Rightarrow>
          (case skipSpace r of
             [] \<Rightarrow> None
           | c # cs \<Rightarrow>
               if c = CHR '','' then scanElems n cs
               else if c = CHR '']'' then Some cs
               else None))"
| "scanMembers 0 s = None"
| "scanMembers (Suc n) s =
     (case skipSpace s of
        [] \<Rightarrow> None
      | q # cs \<Rightarrow>
          if q = dquote then
            (case scanString cs of
               None \<Rightarrow> None
             | Some r \<Rightarrow>
                 (case skipSpace r of
                    [] \<Rightarrow> None
                  | colon # r1 \<Rightarrow>
                      if colon = CHR '':'' then
                        (case scanValue n r1 of
                           None \<Rightarrow> None
                         | Some r2 \<Rightarrow>
                             (case skipSpace r2 of
                                [] \<Rightarrow> None
                              | c # r3 \<Rightarrow>
                                  if c = CHR '','' then scanMembers n r3
                                  else if c = CHR ''}'' then Some r3
                                  else None))
                      else None))
          else None)"

definition jsonValid :: "string \<Rightarrow> bool" where
  "jsonValid s =
     (case scanValue (Suc (length s)) s of
        None \<Rightarrow> False
      | Some r \<Rightarrow> skipSpace r = [])"

text \<open>
  Notions used in the proofs about the check: bytes of a multi-byte sequence, the byte
  that may follow a value inside a document, and the bytes a value may start with.
\<close>

definition highBytes :: "string \<Rightarrow> bool" where
  "highBytes xs \<longleftrightarrow> (\<forall>b \<in> set xs. 128 \<le> byte b)"

definition okTail :: "string \<Rightarrow> bool" where
  "okTail rest \<longleftrightarrow>
     (case rest of [] \<Rightarrow> True | c # cs \<Rightarrow> c = CHR '','' \<or> c = CHR '']'' \<or> c = CHR ''}'')"

definition valueStart :: "char \<Rightarrow> bool" where
  "valueStart c \<longleftrightarrow> \<not> isSpace c \<and> c \<noteq> CHR '']'' \<and> c \<noteq> CHR ''}''"

section \<open>Engine supervisor (engine.go)\<close>

datatype EngineStatus =
    StatusStopped
  | StatusStarting
  | StatusRunning
  | StatusStopping
  | StatusError

text \<open>
  \<open>EngineMode\<close> is a string type with two named values; \<open>ModeOther\<close> stands for any
  other string, which the \<open>default\<close> branch of \<open>Start\<close> rejects.
\<close>

datatype EngineMode =
    ModeServer
  | ModeClient
  | ModeOther string

fun modeString :: "EngineMode \<Rightarrow> string" where
  "modeString ModeServer = ''server''"
| "modeString ModeClient = ''client''"
| "modeString (ModeOther m) = m"

fun statusString :: "EngineStatus \<Rightarrow> string" where
  "statusString StatusStopped = ''stopped''"
| "statusString StatusStarting = ''starting''"
| "statusString StatusRunning = ''running''"
| "statusString StatusStopping = ''stopping''"
| "statusString StatusError = ''error''"

text \<open>
  An \<open>XrayInstance\<close> is an interface with the methods \<open>Start\<close> and \<open>Close\<close>; the
  supervisor sees of it only the error each call returns (\<open>None\<close> is nil). A loader
  turns the bytes of a document into an instance, or fails with an error text.
\<close>

record XrayInstance =
  inst_Start :: "string option"
  inst_Close :: "string option"

type_synonym XrayLoader = "string \<Rightarrow> string + XrayInstance"

text \<open>
  The logger is modelled by the entries written to it, oldest first: level, message and
  fields.
\<close>

datatype Level = DebugLevel | InfoLevel | WarnLevel | ErrorLevel

type_synonym LogEntry = "Level \<times> string \<times> (string \<times> string) list"

text \<open>
  \<open>eng_stopCh\<close> identifies the current stop channel and \<open>eng_closed\<close> lists the
  channels closed so far; \<open>make\<close> yields a channel with a new identity.
\<close>

record Engine =
  eng_config :: "Config option"
  eng_clientConfig :: "ClientConfig option"
  eng_mode :: EngineMode
  eng_logger :: "LogEntry list"
  eng_status :: EngineStatus
  eng_instance :: "XrayInstance option"
  eng_stopCh :: nat
  eng_closed :: "nat list"
  eng_loader :: XrayLoader
  eng_jsonConfig :: "string option"

datatype engine_error =
    AlreadyRunning
  | UnknownMode string
  | BuildFailed build_error
  | LoadFailed string
  | InstanceStartFailed string
  | NotRunning EngineStatus
  | NilDereference

datatype new_error =
    ConfigMustNotBeNil
  | InvalidConfig validate_error

definition logTo :: "Engine \<Rightarrow> LogEntry \<Rightarrow> Engine" where
  "logTo e entry = e\<lparr>eng_logger := eng_logger e @ [entry]\<rparr>"

definition stubInstance :: XrayInstance where
  "stubInstance = \<lparr> inst_Start = None, inst_Close = None \<rparr>"

definition stubLoader :: XrayLoader where
  "stubLoader jsonCfg =
     (if jsonValid jsonCfg then Inr stubInstance else Inl ''invalid JSON config'')"

text \<open>
  The constructors take the package variable \<open>defaultLoader\<close> as an argument: \<open>init\<close>
  sets it to \<open>stubLoader\<close> unless a build tag installs another loader.
\<close>

definition NewEngine :: "XrayLoader \<Rightarrow> Config option \<Rightarrow> new_error + Engine" where
  "NewEngine defaultLoader cfgp =
     (case cfgp of
        None \<Rightarrow> Inl ConfigMustNotBeNil
      | Some cfg \<Rightarrow>
          (case Validate cfg of
             (Some err, cfg') \<Rightarrow> Inl (InvalidConfig err)
           | (None, cfg') \<Rightarrow>
               Inr \<lparr> eng_config = Some cfg', eng_clientConfig = None, eng_mode = ModeServer,
                     eng_logger = [], eng_status = StatusStopped, eng_instance = None,
                     eng_stopCh = 0, eng_closed = [], eng_loader = defaultLoader,
                     eng_jsonConfig = None \<rparr>))"

definition NewClientEngine :: "XrayLoader \<Rightarrow> ClientConfig option \<Rightarrow> new_error + Engine" where
  "NewClientEngine defaultLoader cfgp =
     (case cfgp of
        None \<Rightarrow> Inl ConfigMustNotBeNil
      | Some cfg \<Rightarrow>
          (case ValidateClient cfg of
             (Some err, cfg') \<Rightarrow> Inl (InvalidConfig err)
           | (None, cfg') \<Rightarrow>
               Inr \<lparr> eng_config = None, eng_clientConfig = Some cfg', eng_mode = ModeClient,
                     eng_logger = [], eng_status = StatusStopped, eng_instance = None,
                     eng_stopCh = 0, eng_closed = [], eng_loader = defaultLoader,
                     eng_jsonConfig = None \<rparr>))"

text \<open>
  \<open>Engine.Start\<close> after its \<open>switch\<close>: \<open>built\<close> is what the builder returned. Every
  failure stores \<open>StatusError\<close> and returns the wrapped error.
\<close>

definition startBuilt :: "Engine \<Rightarrow> build_error + string \<Rightarrow> engine_error option \<times> Engine" where
  "startBuilt e built =
     (case built of
        Inl err \<Rightarrow> (Some (BuildFailed err), e\<lparr>eng_status := StatusError\<rparr>)
      | Inr jsonCfg \<Rightarrow>
          (let e1 = logTo (e\<lparr>eng_jsonConfig := Some jsonCfg\<rparr>)
                      (DebugLevel, ''xray-core JSON config generated'',
                       [(''bytes'', showInt (int (length jsonCfg)))])
           in case eng_loader e1 jsonCfg of
                Inl err \<Rightarrow> (Some (LoadFailed err), e1\<lparr>eng_status := StatusError\<rparr>)
              | Inr instance \<Rightarrow>
                  (case inst_Start instance of
                     Some err \<Rightarrow> (Some (InstanceStartFailed err), e1\<lparr>eng_status := StatusError\<rparr>)
                   | None \<Rightarrow>
                       (None,
                        logTo (e1\<lparr>eng_instance := Some instance, eng_status := StatusRunning\<rparr>)
                          (InfoLevel, ''entropy tunnel engine is running'',
                           [(''mode'', modeString (eng_mode e1))])))))"

text \<open>
  \<open>Engine.Start\<close>. The result is the error (\<open>None\<close> is nil) and the engine as the call
  leaves it. The log call of each mode reads the fields of the configuration before the
  builder runs: on a nil configuration the call panics (\<open>NilDereference\<close>) with the
  status already \<open>starting\<close>.
\<close>

definition Start :: "Engine \<Rightarrow> engine_error option \<times> Engine" where
  "Start e =
     (if eng_status e = StatusRunning then (Some AlreadyRunning, e)
      else
        (let e1 = e\<lparr>eng_status := StatusStarting\<rparr>
         in case eng_mode e1 of
              ModeServer \<Rightarrow>
                (case eng_config e1 of
                   None \<Rightarrow> (Some NilDereference, e1)
                 | Some cfg \<Rightarrow>
                     startBuilt
                       (logTo e1 (InfoLevel, ''building server config'',
                                  [(''listen'', cfg_Listen cfg),
                                   (''protocol'', cfg_Protocol cfg),
                                   (''sni'', rc_SNI (cfg_Reality cfg))]))
                       (BuildServerJSON (Some cfg)))
            | ModeClient \<Rightarrow>
                (case eng_clientConfig e1 of
                   None \<Rightarrow> (Some NilDereference, e1)
                 | Some cfg \<Rightarrow>
                     startBuilt
                       (logTo e1 (InfoLevel, ''building client config'',
                                  [(''server'', cc_Server cfg),
                                   (''sni'', cc_SNI cfg),
                                   (''fingerprint'', cc_Fingerprint cfg)]))
                       (BuildClientJSON (Some cfg)))
            | ModeOther m \<Rightarrow> (Some (UnknownMode m), e1\<lparr>eng_status := StatusError\<rparr>)))"

text \<open>
  \<open>Engine.Stop\<close>: the stop channel is closed and replaced; an error of \<open>Close\<close> is
  written to the log and not returned.
\<close>

definition Stop :: "Engine \<Rightarrow> engine_error option \<times> Engine" where
  "Stop e =
     (if eng_status e \<noteq> StatusRunning then (Some (NotRunning (eng_status e)), e)
      else
        (let e1 = logTo (e\<lparr>eng_status := StatusStopping\<rparr>)
                    (InfoLevel, ''stopping entropy tunnel engine'', []);
             e2 = e1\<lparr>eng_closed := eng_stopCh e1 # eng_closed e1\<rparr>;
             e3 = (case eng_instance e2 of
                     None \<Rightarrow> e2
                   | Some instance \<Rightarrow>
                       (case inst_Close instance of
                          None \<Rightarrow> e2
                        | Some err \<Rightarrow>
                            logTo e2 (ErrorLevel, ''error closing xray instance'',
                                      [(''error'', err)])));
             e4 = e3\<lparr>eng_instance := None, eng_status := StatusStopped,
                      eng_stopCh := Suc (eng_stopCh e3)\<rparr>
         in (None, logTo e4 (InfoLevel, ''tunnel engine stopped'', []))))"

definition Status :: "Engine \<Rightarrow> EngineStatus" where
  "Status e = eng_status e"

section \<open>Control surface (api/server.go)\<close>

text \<open>
  The server holds a pointer to the engine, which the process shares with it: the
  model keeps the engine inside the server record, and a handler returns the response
  and the server (engine included) as the call leaves them. \<open>srv_startTime\<close> is \<open>None\<close>
  for the zero time. The message of an error response is either a fixed text or the
  text \<open>err.Error()\<close> of an engine error, kept as the error itself.
\<close>

record Server =
  srv_addr :: string
  srv_engine :: Engine
  srv_logger :: "LogEntry list"
  srv_connected :: bool
  srv_sportsMode :: bool
  srv_startTime :: "int option"
  srv_bytesSent :: int
  srv_bytesRecv :: int

datatype error_message =
    Text string
  | ErrorOf engine_error

datatype response_body =
    Body json
  | ErrorBody error_message

record Response =
  resp_code :: nat
  resp_body :: response_body

definition StatusConflict :: nat where
  "StatusConflict = 409"

definition StatusInternalServerError :: nat where
  "StatusInternalServerError = 500"

definition writeJSON :: "json \<Rightarrow> Response" where
  "writeJSON v = \<lparr> resp_code = 200, resp_body = Body v \<rparr>"

definition writeError :: "nat \<Rightarrow> error_message \<Rightarrow> Response" where
  "writeError code msg = \<lparr> resp_code = code, resp_body = ErrorBody msg \<rparr>"

definition NewServer :: "string \<Rightarrow> Engine \<Rightarrow> Server" where
  "NewServer addr engine =
     \<lparr> srv_addr = addr, srv_engine = engine, srv_logger = [], srv_connected = False,
       srv_sportsMode = False, srv_startTime = None, srv_bytesSent = 0, srv_bytesRecv = 0 \<rparr>"

text \<open>
  \<open>handleStatus\<close> reads the status of the engine. \<open>uptime\<close> is the text of the time
  since \<open>startTime\<close>, truncated to seconds, given by \<open>fmtDuration\<close>.
\<close>

definition handleStatus :: "(int \<Rightarrow> string) \<Rightarrow> int \<Rightarrow> Server \<Rightarrow> Response" where
  "handleStatus fmtDuration now s =
     (let engineStatus = Status (srv_engine s);
          isConnected = (engineStatus = StatusRunning);
          uptime = (case srv_startTime s of
                      None \<Rightarrow> []
                    | Some t \<Rightarrow> if isConnected then fmtDuration (now - t) else [])
      in writeJSON
           (JObj ([(''connected'', JBool isConnected),
                   (''status'', JStr (statusString engineStatus)),
                   (''sports_mode'', JBool (srv_sportsMode s))]
                  @ omitString ''uptime'' uptime
                  @ [(''bytes_sent'', JNum (srv_bytesSent s)),
                     (''bytes_recv'', JNum (srv_bytesRecv s))])))"

definition handleConnect :: "int \<Rightarrow> Server \<Rightarrow> Response \<times> Server" where
  "handleConnect now s =
     (if srv_connected s then (writeError StatusConflict (Text ''already connected''), s)
      else
        (case Start (srv_engine s) of
           (Some err, engine') \<Rightarrow>
             (writeError StatusInternalServerError (ErrorOf err), s\<lparr>srv_engine := engine'\<rparr>)
         | (None, engine') \<Rightarrow>
             (writeJSON (JObj [(''status'', JStr ''connected'')]),
              s\<lparr>srv_engine := engine', srv_connected := True, srv_startTime := Some now,
                srv_logger := srv_logger s @ [(InfoLevel, ''tunnel connected via API'', [])]\<rparr>)))"

definition handleDisconnect :: "Server \<Rightarrow> Response \<times> Server" where
  "handleDisconnect s =
     (if \<not> srv_connected s then (writeError StatusConflict (Text ''not connected''), s)
      else
        (case Stop (srv_engine s) of
           (Some err, engine') \<Rightarrow>
             (writeError StatusInternalServerError (ErrorOf err), s\<lparr>srv_engine := engine'\<rparr>)
         | (None, engine') \<Rightarrow>
             (writeJSON (JObj [(''status'', JStr ''disconnected'')]),
              s\<lparr>srv_engine := engine', srv_connected := False, srv_startTime := None,
                srv_logger := srv_logger s @ [(InfoLevel, ''tunnel disconnected via API'', [])]\<rparr>)))"

section \<open>Rotation controllers (controller.go, cloudflare.go, aws.go)\<close>

text \<open>
  Times are nanoseconds on the clock of the process; a call that reads the clock takes
  the reading \<open>now\<close> as an argument.
\<close>

record Endpoint =
  ep_ID :: string
  ep_Address :: string
  ep_Region :: string
  ep_Provider :: string
  ep_CreatedAt :: int
  ep_ExpiresAt :: int
  ep_Metadata :: "(string \<times> string) list"

definition Hour :: int where
  "Hour = 3600 * 1000000000"

definition IsExpired :: "Endpoint \<Rightarrow> int \<Rightarrow> bool" where
  "IsExpired e now \<longleftrightarrow> ep_ExpiresAt e < now"

record NoOpController =
  ctl_endpoints :: "Endpoint list"
  ctl_logger :: "LogEntry list"
  ctl_stopCh :: nat
  ctl_counter :: int

datatype rotation_error =
    EndpointNotFound string

definition NewNoOpController :: NoOpController where
  "NewNoOpController =
     \<lparr> ctl_endpoints = [], ctl_logger = [], ctl_stopCh = 0, ctl_counter = 0 \<rparr>"

definition ctlLog :: "NoOpController \<Rightarrow> LogEntry \<Rightarrow> NoOpController" where
  "ctlLog c entry = c\<lparr>ctl_logger := ctl_logger c @ [entry]\<rparr>"

text \<open>\<open>NoOpController.Rotate\<close> returns the new endpoint and a nil error.\<close>

definition Rotate :: "NoOpController \<Rightarrow> int \<Rightarrow> Endpoint \<times> NoOpController" where
  "Rotate c now =
     (let c1 = c\<lparr>ctl_counter := wrap64 (ctl_counter c + 1)\<rparr>;
          ep = \<lparr> ep_ID = ''noop-'' @ showInt (ctl_counter c1),
                 ep_Address = ''127.0.0.1:'' @ showInt (wrap64 (10000 + ctl_counter c1)),
                 ep_Region = ''local'',
                 ep_Provider = ''noop'',
                 ep_CreatedAt = now,
                 ep_ExpiresAt = now + 1 * Hour,
                 ep_Metadata = [] \<rparr>
      in (ep, ctlLog (c1\<lparr>ctl_endpoints := ctl_endpoints c1 @ [ep]\<rparr>)
                (InfoLevel, ''rotated endpoint (noop)'',
                 [(''id'', ep_ID ep), (''address'', ep_Address ep)])))"

text \<open>
  The loop of the \<open>Retire\<close> methods: the list without the first endpoint that has the
  identifier, or \<open>None\<close> when no endpoint has it.
\<close>

fun removeByID :: "string \<Rightarrow> Endpoint list \<Rightarrow> Endpoint list option" where
  "removeByID ident [] = None"
| "removeByID ident (e # es) =
     (if ep_ID e = ident then Some es
      else (case removeByID ident es of None \<Rightarrow> None | Some es' \<Rightarrow> Some (e # es')))"

definition Retire :: "NoOpController \<Rightarrow> Endpoint \<Rightarrow> rotation_error option \<times> NoOpController" where
  "Retire c ep =
     (case removeByID (ep_ID ep) (ctl_endpoints c) of
        Some es \<Rightarrow>
          (None, ctlLog (c\<lparr>ctl_endpoints := es\<rparr>)
                   (InfoLevel, ''retired endpoint (noop)'', [(''id'', ep_ID ep)]))
      | None \<Rightarrow> (Some (EndpointNotFound (ep_ID ep)), c))"

definition ActiveEndpoints :: "NoOpController \<Rightarrow> int \<Rightarrow> Endpoint list" where
  "ActiveEndpoints c now = filter (\<lambda>ep. \<not> IsExpired ep now) (ctl_endpoints c)"




text \<open>
  The Cloudflare and AWS controllers embed a \<open>NoOpController\<close>. Their \<open>Retire\<close> calls
  the provider; \<open>deleteWorker\<close> and \<open>deleteFunction\<close> are modelled by the error the
  exchange with the provider returns for a resource name (\<open>None\<close> is nil).
\<close>

record CloudflareController =
  cf_base :: NoOpController
  cf_apiToken :: string
  cf_accountID :: string
  cf_zoneID :: string

record AWSController =
  aws_base :: NoOpController
  aws_region :: string
  aws_accessKey :: string
  aws_secretKey :: string

definition NewCloudflareController :: "string \<Rightarrow> string \<Rightarrow> string \<Rightarrow> CloudflareController" where
  "NewCloudflareController apiToken accountID zoneID =
     \<lparr> cf_base = NewNoOpController, cf_apiToken = apiToken, cf_accountID = accountID,
       cf_zoneID = zoneID \<rparr>"

definition NewAWSController :: "string \<Rightarrow> string \<Rightarrow> string \<Rightarrow> AWSController" where
  "NewAWSController region accessKey secretKey =
     \<lparr> aws_base = NewNoOpController, aws_region = region, aws_accessKey = accessKey,
       aws_secretKey = secretKey \<rparr>"

definition removeIfPresent :: "string \<Rightarrow> Endpoint list \<Rightarrow> Endpoint list" where
  "removeIfPresent ident es = (case removeByID ident es of None \<Rightarrow> es | Some es' \<Rightarrow> es')"

definition CloudflareRetire ::
  "(string \<Rightarrow> string option) \<Rightarrow> CloudflareController \<Rightarrow> Endpoint \<Rightarrow>
   rotation_error option \<times> CloudflareController" where
  "CloudflareRetire deleteWorker c ep =
     (if ep_Provider ep \<noteq> ''cloudflare'' then
        (let (err, base') = Retire (cf_base c) ep in (err, c\<lparr>cf_base := base'\<rparr>))
      else
        (let workerName = ep_ID ep;
             b1 = ctlLog (cf_base c)
                    (InfoLevel, ''retiring cloudflare worker'', [(''name'', workerName)]);
             b2 = (case deleteWorker workerName of
                     None \<Rightarrow> b1
                   | Some err \<Rightarrow>
                       ctlLog b1 (WarnLevel, ''failed to delete worker (may not exist)'',
                                  [(''error'', err)]));
             b3 = b2\<lparr>ctl_endpoints := removeIfPresent (ep_ID ep) (ctl_endpoints b2)\<rparr>
         in (None, c\<lparr>cf_base := b3\<rparr>)))"

definition AWSRetire ::
  "(string \<Rightarrow> string option) \<Rightarrow> AWSController \<Rightarrow> Endpoint \<Rightarrow>
   rotation_error option \<times> AWSController" where
  "AWSRetire deleteFunction a ep =
     (if ep_Provider ep \<noteq> ''aws'' then
        (let (err, base') = Retire (aws_base a) ep in (err, a\<lparr>aws_base := base'\<rparr>))
      else
        (let b1 = ctlLog (aws_base a)
                    (InfoLevel, ''retiring aws lambda'', [(''name'', ep_ID ep)]);
             b2 = (case deleteFunction (ep_ID ep) of
                     None \<Rightarrow> b1
                   | Some err \<Rightarrow>
                       ctlLog b1 (WarnLevel, ''failed to delete lambda'', [(''error'', err)]));
             b3 = b2\<lparr>ctl_endpoints := removeIfPresent (ep_ID ep) (ctl_endpoints b2)\<rparr>
         in (None, a\<lparr>aws_base := b3\<rparr>)))"

text \<open>
  To state what the auto-rotation task leaves in the list: the endpoint that \<open>Rotate\<close>
  makes when the counter has become \<open>k\<close> at the clock reading \<open>now\<close>, and the endpoints
  made, in order, by the ticks of a task that starts with the counter at \<open>k\<close>.
\<close>

definition noopEndpoint :: "int \<Rightarrow> int \<Rightarrow> Endpoint" where
  "noopEndpoint k now =
     \<lparr> ep_ID = ''noop-'' @ showInt k,
       ep_Address = ''127.0.0.1:'' @ showInt (wrap64 (10000 + k)),
       ep_Region = ''local'',
       ep_Provider = ''noop'',
       ep_CreatedAt = now,
       ep_ExpiresAt = now + 1 * Hour,
       ep_Metadata = [] \<rparr>"


section \<open>Health monitor (health.go)\<close>

record HealthResult =
  hr_EndpointID :: string
  hr_Healthy :: bool
  hr_Latency :: int
  hr_LastCheck :: int
  hr_FailCount :: int
  hr_Error :: string

text \<open>
  What one round of probing meets outside the program: the error each probe returns for
  an address (\<open>None\<close> is nil), the clock reading and the time a probe takes.
\<close>

record ProbeEnv =
  env_probeHTTPS :: "string \<Rightarrow> string option"
  env_probeTCP :: "string \<Rightarrow> string option"
  env_now :: int
  env_elapsed :: int

text \<open>The body shared by the three branches of the \<open>switch\<close> in \<open>checkEndpoint\<close>.\<close>

definition recordProbe :: "ProbeEnv \<Rightarrow> HealthResult \<Rightarrow> string option \<Rightarrow> HealthResult" where
  "recordProbe env result err =
     (case err of
        Some msg \<Rightarrow>
          result\<lparr>hr_Latency := env_elapsed env, hr_Healthy := False,
                 hr_FailCount := wrap64 (hr_FailCount result + 1), hr_Error := msg\<rparr>
      | None \<Rightarrow>
          result\<lparr>hr_Latency := env_elapsed env, hr_Healthy := True, hr_FailCount := 0\<rparr>)"

definition checkEndpoint ::
  "ProbeEnv \<Rightarrow> (string \<rightharpoonup> HealthResult) \<Rightarrow> Endpoint \<Rightarrow> HealthResult" where
  "checkEndpoint env results ep =
     (let result0 = \<lparr> hr_EndpointID = ep_ID ep, hr_Healthy = False, hr_Latency = 0,
                       hr_LastCheck = env_now env, hr_FailCount = 0, hr_Error = [] \<rparr>;
          result = (case results (ep_ID ep) of
                      Some prev \<Rightarrow> result0\<lparr>hr_FailCount := hr_FailCount prev\<rparr>
                    | None \<Rightarrow> result0)
      in if ep_Provider ep = ''cloudflare'' then
           recordProbe env result (env_probeHTTPS env (ep_Address ep))
         else if ep_Provider ep = ''aws'' then
           recordProbe env result (env_probeHTTPS env (ep_Address ep))
         else
           recordProbe env result (env_probeTCP env (ep_Address ep)))"

text \<open>
  \<open>checkAll\<close> over the endpoints that \<open>ActiveEndpoints\<close> returned. The state of the
  monitor is the map of results, the goroutines started so far (each is the list of
  calls it makes on the controller, in order) and the log.
\<close>

datatype ControllerCall =
    CallRetire Endpoint
  | CallRotate

record HealthChecker =
  hc_results :: "string \<rightharpoonup> HealthResult"
  hc_spawned :: "ControllerCall list list"
  hc_logger :: "LogEntry list"

definition NewHealthChecker :: HealthChecker where
  "NewHealthChecker = \<lparr> hc_results = Map.empty, hc_spawned = [], hc_logger = [] \<rparr>"

definition checkOne :: "ProbeEnv \<Rightarrow> HealthChecker \<Rightarrow> Endpoint \<Rightarrow> HealthChecker" where
  "checkOne env hc ep =
     (let result = checkEndpoint env (hc_results hc) ep;
          hc1 = hc\<lparr>hc_results := (hc_results hc)(ep_ID ep \<mapsto> result)\<rparr>
      in if \<not> hr_Healthy result then
           (let hc2 = hc1\<lparr>hc_logger := hc_logger hc1 @
                        [(WarnLevel, ''endpoint unhealthy'',
                          [(''id'', ep_ID ep),
                           (''fail_count'', showInt (hr_FailCount result)),
                           (''error'', hr_Error result)])]\<rparr>
            in if hr_FailCount result \<ge> 3 then
                 hc2\<lparr>hc_logger := hc_logger hc2 @
                        [(InfoLevel, ''triggering rotation due to unhealthy endpoint'',
                          [(''id'', ep_ID ep)])],
                      hc_spawned := hc_spawned hc2 @ [[CallRetire ep, CallRotate]]\<rparr>
               else hc2)
         else hc1)"

fun checkAll :: "ProbeEnv \<Rightarrow> HealthChecker \<Rightarrow> Endpoint list \<Rightarrow> HealthChecker" where
  "checkAll env hc [] = hc"
| "checkAll env hc (ep # endpoints) = checkAll env (checkOne env hc ep) endpoints"

text \<open>
  The monitor over its ticks: each tick brings what the probes meet and the endpoints
  the controller reports as active.
\<close>

fun runChecks :: "HealthChecker \<Rightarrow> (ProbeEnv \<times> Endpoint list) list \<Rightarrow> HealthChecker" where
  "runChecks hc [] = hc"
| "runChecks hc ((env, endpoints) # ticks) = runChecks (checkAll env hc endpoints) ticks"

fun probeCount :: "(ProbeEnv \<times> Endpoint list) list \<Rightarrow> nat" where
  "probeCount [] = 0"
| "probeCount ((env, endpoints) # ticks) = length endpoints + probeCount ticks"

text \<open>
  To state the properties of the monitor: the error of the probe that the \<open>switch\<close>
  of \<open>checkEndpoint\<close> runs for an endpoint (HTTPS for the providers \<open>cloudflare\<close> and
  \<open>aws\<close>, TCP for the others), the counter stored for the endpoint before the probe
  (0 when it has no result yet), and the invariant of the counters after at most \<open>n\<close>
  probes.
\<close>

definition probeOutcome :: "ProbeEnv \<Rightarrow> Endpoint \<Rightarrow> string option" where
  "probeOutcome env ep =
     (if ep_Provider ep = ''cloudflare'' \<or> ep_Provider ep = ''aws''
      then env_probeHTTPS env (ep_Address ep)
      else env_probeTCP env (ep_Address ep))"

definition previousCount :: "(string \<rightharpoonup> HealthResult) \<Rightarrow> Endpoint \<Rightarrow> int" where
  "previousCount results ep =
     (case results (ep_ID ep) of None \<Rightarrow> 0 | Some prev \<Rightarrow> hr_FailCount prev)"

definition countersOK :: "int \<Rightarrow> HealthChecker \<Rightarrow> bool" where
  "countersOK n hc \<longleftrightarrow>
     (\<forall>ident r. hc_results hc ident = Some r \<longrightarrow>
        0 \<le> hr_FailCount r \<and> hr_FailCount r \<le> n \<and> (hr_FailCount r = 0 \<longrightarrow> hr_Healthy r))"

text \<open>
  The goroutines that the probe of one endpoint makes \<open>checkAll\<close> start: one, which
  calls \<open>Retire\<close> of the endpoint and then \<open>Rotate\<close>, when the result is unhealthy
  with a counter of at least 3, and none otherwise.
\<close>

definition rotationTrigger ::
  "ProbeEnv \<Rightarrow> (string \<rightharpoonup> HealthResult) \<Rightarrow> Endpoint \<Rightarrow> ControllerCall list list" where
  "rotationTrigger env results ep =
     (if \<not> hr_Healthy (checkEndpoint env results ep) \<and>
         3 \<le> hr_FailCount (checkEndpoint env results ep)
      then [[CallRetire ep, CallRotate]] else [])"

section \<open>Configurations of the test suite, used to evaluate the model\<close>

definition zeroReality :: RealityConfig where
  "zeroReality = \<lparr> rc_SNI = [], rc_PrivateKey = [], rc_PublicKey = [], rc_ShortIDs = [] \<rparr>"

definition zeroRotation :: RotationConfig where
  "zeroRotation = \<lparr> rot_Enabled = False, rot_Provider = [], rot_Interval = [],
     rot_CFAPIToken = [], rot_CFAccountID = [], rot_CFZoneID = [], rot_AWSRegion = [],
     rot_AWSKey = [], rot_AWSSecret = [] \<rparr>"

definition zeroPayment :: PaymentConfig where
  "zeroPayment = \<lparr> pay_Enabled = False, pay_BTCPayURL = [], pay_BTCPayKey = [], pay_StoreID = [] \<rparr>"

definition zeroConfig :: Config where
  "zeroConfig = \<lparr> cfg_Listen = [], cfg_Protocol = [], cfg_UUID = [], cfg_Reality = zeroReality,
     cfg_Fingerprint = [], cfg_Fallbacks = [], cfg_LogLevel = [], cfg_SportsMode = False,
     cfg_Rotation = zeroRotation, cfg_Payment = zeroPayment \<rparr>"

definition zeroClientConfig :: ClientConfig where
  "zeroClientConfig = \<lparr> cc_Server = [], cc_UUID = [], cc_SNI = [], cc_Fingerprint = [],
     cc_PublicKey = [], cc_ShortID = [], cc_LocalListen = [], cc_HTTPListen = [],
     cc_LogLevel = [], cc_SportsMode = False, cc_APIListen = [] \<rparr>"

definition decoyConfig :: Config where
  "decoyConfig = zeroConfig \<lparr> cfg_Listen := '':443'', cfg_UUID := ''u'',
     cfg_Reality := zeroReality \<lparr> rc_SNI := ''www.google.com'', rc_PrivateKey := ''k'' \<rparr>,
     cfg_Fallbacks := [\<lparr> fb_Protocol = ''trojan'', fb_Listen = '':8443'',
                         fb_Transport = ''ws'', fb_Path = ''/ws'' \<rparr>] \<rparr>"

definition noPortConfig :: Config where
  "noPortConfig = zeroConfig \<lparr> cfg_Listen := ''noport'', cfg_UUID := ''u'',
     cfg_Reality := zeroReality \<lparr> rc_SNI := ''g.com'', rc_PrivateKey := ''k'' \<rparr> \<rparr>"

definition httpClientConfig :: ClientConfig where
  "httpClientConfig = zeroClientConfig \<lparr> cc_Server := ''1.2.3.4:443'', cc_UUID := ''u'',
     cc_SNI := ''g.com'', cc_PublicKey := ''pk'', cc_LocalListen := ''127.0.0.1:1080'',
     cc_HTTPListen := ''127.0.0.1:8080'' \<rparr>"

definition badHTTPClientConfig :: ClientConfig where
  "badHTTPClientConfig = zeroClientConfig \<lparr> cc_Server := ''example.org:https'', cc_UUID := ''u'',
     cc_SNI := ''g.com'', cc_PublicKey := ''pk'', cc_HTTPListen := ''noport'' \<rparr>"

text \<open>Engines over these configurations, with the stub loader.\<close>

definition decoyEngine :: Engine where
  "decoyEngine = projr (NewEngine stubLoader (Some decoyConfig))"

definition errorEngine :: Engine where
  "errorEngine = decoyEngine \<lparr> eng_status := StatusError \<rparr>"

definition noPortEngine :: Engine where
  "noPortEngine = projr (NewEngine stubLoader (Some noPortConfig))"

definition closeFailsInstance :: XrayInstance where
  "closeFailsInstance = \<lparr> inst_Start = None, inst_Close = Some ''close failed'' \<rparr>"

definition closeFailsEngine :: Engine where
  "closeFailsEngine =
     decoyEngine \<lparr> eng_status := StatusRunning, eng_instance := Some closeFailsInstance \<rparr>"

text \<open>
  The state of the client program when its control surface comes up: the engine has
  been started, then \<open>NewServer\<close> is called on it.
\<close>

definition clientEngine :: Engine where
  "clientEngine = projr (NewClientEngine stubLoader (Some httpClientConfig))"

definition startedServer :: Server where
  "startedServer = NewServer ''127.0.0.1:9876'' (snd (Start clientEngine))"

text \<open>Endpoints and controllers of the rotation tests.\<close>

definition unknownEndpoint :: "string \<Rightarrow> Endpoint" where
  "unknownEndpoint provider =
     \<lparr> ep_ID = ''nonexistent'', ep_Address = [], ep_Region = [], ep_Provider = provider,
       ep_CreatedAt = 0, ep_ExpiresAt = 0, ep_Metadata = [] \<rparr>"

definition testCloudflare :: CloudflareController where
  "testCloudflare = NewCloudflareController ''token'' ''account'' ''zone''"

definition testAWS :: AWSController where
  "testAWS = NewAWSController ''us-east-1'' ''key'' ''secret''"



text \<open>
  An endpoint of the local controller, a network on which every probe fails, one on
  which every probe succeeds, and a monitor after two rounds of failed probes.
\<close>

definition tcpEndpoint :: Endpoint where
  "tcpEndpoint =
     \<lparr> ep_ID = ''noop-1'', ep_Address = ''127.0.0.1:10001'', ep_Region = ''local'',
       ep_Provider = ''noop'', ep_CreatedAt = 0, ep_ExpiresAt = Hour, ep_Metadata = [] \<rparr>"

definition downEnv :: ProbeEnv where
  "downEnv =
     \<lparr> env_probeHTTPS = (\<lambda>addr. Some ''HTTPS probe failed''),
       env_probeTCP = (\<lambda>addr. Some ''TCP probe failed''),
       env_now = 0, env_elapsed = 0 \<rparr>"

definition upEnv :: ProbeEnv where
  "upEnv =
     \<lparr> env_probeHTTPS = (\<lambda>addr. None), env_probeTCP = (\<lambda>addr. None),
       env_now = 0, env_elapsed = 0 \<rparr>"

definition twoFailures :: "(ProbeEnv \<times> Endpoint list) list" where
  "twoFailures = [(downEnv, [tcpEndpoint]), (downEnv, [tcpEndpoint])]"

definition failedTwice :: HealthChecker where
  "failedTwice = runChecks NewHealthChecker twoFailures"


text \<open>
  Controllers that hold endpoints: the local controller after one \<open>Rotate\<close> at time 0,
  and a Cloudflare and an AWS controller that each hold one endpoint of their own
  provider.
\<close>

definition rotatedOnce :: NoOpController where
  "rotatedOnce = snd (Rotate NewNoOpController 0)"

definition workerEndpoint :: Endpoint where
  "workerEndpoint =
     \<lparr> ep_ID = ''entropy-worker-1-1'', ep_Address = ''entropy-worker-1-1.workers.dev'',
       ep_Region = ''global'', ep_Provider = ''cloudflare'', ep_CreatedAt = 0,
       ep_ExpiresAt = Hour,
       ep_Metadata = [(''worker_name'', ''entropy-worker-1-1''), (''type'', ''workers'')] \<rparr>"

definition lambdaEndpoint :: Endpoint where
  "lambdaEndpoint =
     \<lparr> ep_ID = ''entropy-lambda-1-1'', ep_Address = ''https://example.lambda-url.on.aws/'',
       ep_Region = ''us-east-1'', ep_Provider = ''aws'', ep_CreatedAt = 0,
       ep_ExpiresAt = Hour,
       ep_Metadata = [(''function_name'', ''entropy-lambda-1-1''), (''type'', ''lambda'')] \<rparr>"

definition cloudflareOne :: CloudflareController where
  "cloudflareOne =
     testCloudflare \<lparr> cf_base := NewNoOpController \<lparr> ctl_endpoints := [workerEndpoint],
                                                    ctl_counter := 1 \<rparr> \<rparr>"

definition awsOne :: AWSController where
  "awsOne =
     testAWS \<lparr> aws_base := NewNoOpController \<lparr> ctl_endpoints := [lambdaEndpoint],
                                               ctl_counter := 1 \<rparr> \<rparr>"

text \<open>A second endpoint, and five rounds in which the probes of both endpoints fail.\<close>

definition tcpEndpoint2 :: Endpoint where
  "tcpEndpoint2 =
     \<lparr> ep_ID = ''noop-2'', ep_Address = ''127.0.0.1:10002'', ep_Region = ''local'',
       ep_Provider = ''noop'', ep_CreatedAt = 0, ep_ExpiresAt = Hour, ep_Metadata = [] \<rparr>"

definition failingRound :: "ProbeEnv \<times> Endpoint list" where
  "failingRound = (downEnv, [tcpEndpoint, tcpEndpoint2])"

definition fourRounds :: "(ProbeEnv \<times> Endpoint list) list" where
  "fourRounds = [failingRound, failingRound, failingRound, failingRound]"

definition failedFourTimes :: HealthChecker where
  "failedFourTimes = runChecks NewHealthChecker fourRounds"

section \<open>The configuration compiler: shape of the documents\<close>

lemma addFallbacks_ok:
  "\<forall>fb \<in> set fbs. \<not> isl (splitHostPort (fb_Listen fb)) \<Longrightarrow>
   addFallbacks i fbs acc =
     Inr (acc @ map (\<lambda>(k, fb). fallbackInbound k fb (fst (projr (splitHostPort (fb_Listen fb))))
                                   (snd (projr (splitHostPort (fb_Listen fb)))))
                    (enumerate i fbs))"
proof (induction fbs arbitrary: i acc)
  case Nil
  then show ?case by simp
next
  case (Cons fb fbs)
  from Cons.prems obtain h p where hp: "splitHostPort (fb_Listen fb) = Inr (h, p)"
    by (cases "splitHostPort (fb_Listen fb)") auto
  from Cons.prems have rest: "\<forall>fb \<in> set fbs. \<not> isl (splitHostPort (fb_Listen fb))"
    by simp
  show ?case
    by (simp add: hp Cons.IH [OF rest])
qed

lemma addFallbacks_fail:
  "\<exists>fb \<in> set fbs. isl (splitHostPort (fb_Listen fb)) \<Longrightarrow>
   \<exists>err. addFallbacks i fbs acc = Inl (InvalidFallbackListenAddress err)"
proof (induction fbs arbitrary: i acc)
  case Nil
  then show ?case by simp
next
  case (Cons fb fbs)
  show ?case
  proof (cases "splitHostPort (fb_Listen fb)")
    case (Inl e)
    then show ?thesis by simp
  next
    case (Inr hp)
    with Cons.prems have "\<exists>fb \<in> set fbs. isl (splitHostPort (fb_Listen fb))"
      by auto
    from Cons.IH [OF this] Inr show ?thesis
      by (cases hp) simp
  qed
qed

lemma addFallbacks_isl:
  "isl (addFallbacks i fbs acc) \<longleftrightarrow> (\<exists>fb \<in> set fbs. isl (splitHostPort (fb_Listen fb)))"
proof (cases "\<exists>fb \<in> set fbs. isl (splitHostPort (fb_Listen fb))")
  case True
  with addFallbacks_fail [OF True, of i acc] show ?thesis by auto
next
  case False
  then have "\<forall>fb \<in> set fbs. \<not> isl (splitHostPort (fb_Listen fb))" by simp
  from addFallbacks_ok [OF this, of i acc] False show ?thesis by simp
qed



lemmas test_config_defs = zeroReality_def zeroRotation_def zeroPayment_def zeroConfig_def
  zeroClientConfig_def decoyConfig_def noPortConfig_def httpClientConfig_def badHTTPClientConfig_def

lemmas split_defs = splitHostPort_def parseServerAddr_def LastIndex_def Atoi_def isDigit_def byte_def

text \<open>
  Claim C1, as amended. \<open>Validate\<close> checks only that the listen address is not empty,
  so a validated configuration can still carry an address that does not split, and then
  \<open>BuildServerJSON\<close> fails. For every server configuration (validated or not) whose
  listen address splits into host and port and whose fallback listen addresses all
  split, \<open>BuildServerJSON\<close> succeeds; the document it renders has exactly
  \<open>len(Fallbacks) + 1\<close> inbounds, the primary inbound tagged \<open>vless-reality\<close> first and
  then one inbound per fallback binding in order, and exactly two outbounds, in order:
  \<open>direct\<close> with protocol \<open>freedom\<close> (the passthrough protocol) and \<open>block\<close> with
  protocol \<open>blackhole\<close> (the sinkhole protocol).
\<close>

theorem server_document:
  assumes listen: "splitHostPort (cfg_Listen cfg) = Inr (host, port)"
    and fallbacks: "\<forall>fb \<in> set (cfg_Fallbacks cfg). \<not> isl (splitHostPort (fb_Listen fb))"
  shows "\<exists>xc primary.
           BuildServerXC (Some cfg) = Inr xc \<and>
           BuildServerJSON (Some cfg) = Inr (Marshal (fullConfigJSON xc)) \<and>
           length (xc_Inbounds xc) = length (cfg_Fallbacks cfg) + 1 \<and>
           xc_Inbounds xc =
             primary #
             map (\<lambda>(i, fb). fallbackInbound i fb (fst (projr (splitHostPort (fb_Listen fb))))
                                             (snd (projr (splitHostPort (fb_Listen fb)))))
                 (enumerate 0 (cfg_Fallbacks cfg)) \<and>
           in_Tag primary = ''vless-reality'' \<and> in_Listen primary = host \<and>
           in_Port primary = port \<and> in_Protocol primary = ''vless'' \<and>
           xc_Outbounds xc =
             [\<lparr> out_Tag = ''direct'', out_Protocol = ''freedom'',
                 out_Settings = None, out_Stream = None \<rparr>,
              \<lparr> out_Tag = ''block'', out_Protocol = ''blackhole'',
                 out_Settings = None, out_Stream = None \<rparr>] \<and>
           fullConfigJSON xc =
             JObj [(''log'', logJSON \<lparr> xl_LogLevel = coalesce [cfg_LogLevel cfg, ''info''] \<rparr>),
                   (''inbounds'', JArr (map inboundJSON (xc_Inbounds xc))),
                   (''outbounds'',
                      JArr [JObj [(''tag'', JStr ''direct''), (''protocol'', JStr ''freedom'')],
                            JObj [(''tag'', JStr ''block''), (''protocol'', JStr ''blackhole'')]])]"
  using addFallbacks_ok [OF fallbacks]
  by (simp add: BuildServerJSON_def BuildServerXC_def listen fullConfigJSON_def
      outboundJSON_def omitPtr_def primaryInbound_def Let_def)

theorem server_document_witness:
  "splitHostPort (cfg_Listen decoyConfig) = Inr (''0.0.0.0'', 443) \<and>
   (case BuildServerXC (Some decoyConfig) of
      Inl e \<Rightarrow> False
    | Inr xc \<Rightarrow> map in_Tag (xc_Inbounds xc) = [''vless-reality'', ''fallback-trojan-0''] \<and>
                map out_Tag (xc_Outbounds xc) = [''direct'', ''block''])"
proof -
  have l: "splitHostPort (cfg_Listen decoyConfig) = Inr (''0.0.0.0'', 443)"
    by (simp add: test_config_defs split_defs)
  have f: "\<forall>fb \<in> set (cfg_Fallbacks decoyConfig). \<not> isl (splitHostPort (fb_Listen fb))"
    by (simp add: test_config_defs split_defs)
  from server_document [OF l f] obtain xc primary where
    "BuildServerXC (Some decoyConfig) = Inr xc"
    "xc_Inbounds xc =
       primary #
       map (\<lambda>(i, fb). fallbackInbound i fb (fst (projr (splitHostPort (fb_Listen fb))))
                                       (snd (projr (splitHostPort (fb_Listen fb)))))
           (enumerate 0 (cfg_Fallbacks decoyConfig))"
    "in_Tag primary = ''vless-reality''"
    "xc_Outbounds xc =
             [\<lparr> out_Tag = ''direct'', out_Protocol = ''freedom'',
                 out_Settings = None, out_Stream = None \<rparr>,
              \<lparr> out_Tag = ''block'', out_Protocol = ''blackhole'',
                 out_Settings = None, out_Stream = None \<rparr>]"
    by blast
  then show ?thesis
    using l by (simp add: test_config_defs fallbackInbound_def showInt_def showNat.simps digitChar_def)
qed

text \<open>
  The configuration \<open>noPortConfig\<close> passes \<open>Validate\<close>, and \<open>BuildServerJSON\<close> rejects
  it: its listen address \<open>noport\<close> has no port (the address of the \<open>splitHostPort\<close>
  test).
\<close>

theorem server_build_counterexample:
  "fst (Validate noPortConfig) = None \<and>
   BuildServerJSON (Some (snd (Validate noPortConfig))) =
     Inl (InvalidListenAddress (NoPort ''noport''))"
  by (simp add: test_config_defs Validate_def BuildServerJSON_def BuildServerXC_def split_defs)

text \<open>
  Claim C3, as amended. For every client configuration whose local listen address
  splits, \<open>BuildClientJSON\<close> succeeds with exactly two inbounds (\<open>socks-in\<close>, \<open>http-in\<close>)
  when \<open>HTTPListen\<close> is set and splits into host and port, and exactly one inbound
  (\<open>socks-in\<close>) otherwise: an \<open>HTTPListen\<close> that is set but does not split is skipped.
  In every such case there are exactly two outbounds: \<open>proxy\<close> with protocol \<open>vless\<close>
  first, then \<open>direct\<close> with protocol \<open>freedom\<close>.
\<close>

theorem client_document:
  assumes listen: "splitHostPort (cc_LocalListen cfg) = Inr (localHost, localPort)"
  shows "\<exists>xc.
           BuildClientXC (Some cfg) = Inr xc \<and>
           BuildClientJSON (Some cfg) = Inr (Marshal (fullConfigJSON xc)) \<and>
           length (xc_Inbounds xc) =
             (if cc_HTTPListen cfg \<noteq> [] \<and> \<not> isl (splitHostPort (cc_HTTPListen cfg))
              then 2 else 1) \<and>
           map in_Tag (xc_Inbounds xc) =
             (if cc_HTTPListen cfg \<noteq> [] \<and> \<not> isl (splitHostPort (cc_HTTPListen cfg))
              then [''socks-in'', ''http-in''] else [''socks-in'']) \<and>
           length (xc_Outbounds xc) = 2 \<and>
           map out_Tag (xc_Outbounds xc) = [''proxy'', ''direct''] \<and>
           map out_Protocol (xc_Outbounds xc) = [''vless'', ''freedom'']"
  by (cases "splitHostPort (cc_HTTPListen cfg)")
    (auto simp add: BuildClientJSON_def BuildClientXC_def listen Let_def split: prod.splits)

theorem client_document_witness:
  "splitHostPort (cc_LocalListen httpClientConfig) = Inr (''127.0.0.1'', 1080) \<and>
   (case BuildClientXC (Some httpClientConfig) of
      Inl e \<Rightarrow> False
    | Inr xc \<Rightarrow> map in_Tag (xc_Inbounds xc) = [''socks-in'', ''http-in''] \<and>
                map out_Tag (xc_Outbounds xc) = [''proxy'', ''direct''])"
proof -
  have l: "splitHostPort (cc_LocalListen httpClientConfig) = Inr (''127.0.0.1'', 1080)"
    by (simp add: test_config_defs split_defs)
  have h: "cc_HTTPListen httpClientConfig \<noteq> [] \<and>
           \<not> isl (splitHostPort (cc_HTTPListen httpClientConfig))"
    by (simp add: test_config_defs split_defs)
  from client_document [OF l] h obtain xc where
    "BuildClientXC (Some httpClientConfig) = Inr xc"
    "map in_Tag (xc_Inbounds xc) = [''socks-in'', ''http-in'']"
    "map out_Tag (xc_Outbounds xc) = [''proxy'', ''direct'']"
    by auto
  then show ?thesis
    using l by simp
qed

text \<open>
  The configuration \<open>badHTTPClientConfig\<close> passes \<open>ValidateClient\<close> and sets
  \<open>HTTPListen\<close> to \<open>noport\<close>: the secondary address is present, and the document has
  one inbound, not two.
\<close>

theorem client_inbounds_counterexample:
  "fst (ValidateClient badHTTPClientConfig) = None \<and>
   cc_HTTPListen (snd (ValidateClient badHTTPClientConfig)) = ''noport'' \<and>
   (case BuildClientXC (Some (snd (ValidateClient badHTTPClientConfig))) of
      Inl e \<Rightarrow> 0
    | Inr xc \<Rightarrow> length (xc_Inbounds xc)) = 1"
  by (simp add: test_config_defs ValidateClient_def BuildClientXC_def split_defs)

lemma BuildServerJSON_isl:
  "isl (BuildServerJSON (Some cfg)) \<longleftrightarrow>
     isl (splitHostPort (cfg_Listen cfg)) \<or>
     (\<exists>fb \<in> set (cfg_Fallbacks cfg). isl (splitHostPort (fb_Listen fb)))"
proof (cases "splitHostPort (cfg_Listen cfg)")
  case (Inl e)
  then show ?thesis
    by (simp add: BuildServerJSON_def BuildServerXC_def)
next
  case (Inr hp)
  obtain host port where hp: "hp = (host, port)" by (cases hp)
  have "isl (BuildServerJSON (Some cfg)) \<longleftrightarrow>
          isl (addFallbacks 0 (cfg_Fallbacks cfg) [primaryInbound cfg host port])"
    by (simp add: BuildServerJSON_def BuildServerXC_def Inr hp split: sum.splits)
  then show ?thesis
    by (simp add: addFallbacks_isl Inr)
qed

lemma BuildServerJSON_error_kind:
  "case BuildServerJSON (Some cfg) of Inl e \<Rightarrow> isBadAddress e | Inr out \<Rightarrow> True"
proof (cases "splitHostPort (cfg_Listen cfg)")
  case (Inl e)
  then show ?thesis
    by (simp add: BuildServerJSON_def BuildServerXC_def)
next
  case (Inr hp)
  obtain host port where hp: "hp = (host, port)" by (cases hp)
  show ?thesis
  proof (cases "\<exists>fb \<in> set (cfg_Fallbacks cfg). isl (splitHostPort (fb_Listen fb))")
    case True
    from addFallbacks_fail [OF True, of 0 "[primaryInbound cfg host port]"]
    show ?thesis
      by (auto simp add: BuildServerJSON_def BuildServerXC_def Inr hp)
  next
    case False
    then have "\<forall>fb \<in> set (cfg_Fallbacks cfg). \<not> isl (splitHostPort (fb_Listen fb))"
      by simp
    from addFallbacks_ok [OF this, of 0 "[primaryInbound cfg host port]"]
    show ?thesis
      by (simp add: BuildServerJSON_def BuildServerXC_def Inr hp)
  qed
qed

lemma BuildClientJSON_isl:
  "isl (BuildClientJSON (Some cc)) \<longleftrightarrow> isl (splitHostPort (cc_LocalListen cc))"
  by (auto simp add: BuildClientJSON_def BuildClientXC_def Let_def
      split: sum.splits prod.splits)

lemma BuildClientJSON_error_kind:
  "case BuildClientJSON (Some cc) of Inl e \<Rightarrow> isBadAddress e | Inr out \<Rightarrow> True"
  by (auto simp add: BuildClientJSON_def BuildClientXC_def Let_def
      split: sum.splits prod.splits)

text \<open>
  Claim C9, as amended. A nil configuration is rejected as invalid input by both
  builders. \<open>BuildServerJSON\<close> fails on a configuration exactly when its listen address
  or one of its fallback listen addresses does not split, and \<open>BuildClientJSON\<close> fails
  exactly when the local listen address does not split; each of these failures is a
  bad address. Neither the remote server address nor \<open>HTTPListen\<close> can make
  \<open>BuildClientJSON\<close> fail: \<open>parseServerAddr\<close> has no error result (an address it cannot
  parse is kept whole, with port 443), and an \<open>HTTPListen\<close> that does not split is
  skipped.
\<close>

theorem compile_errors:
  "BuildServerJSON None = Inl ConfigNil \<and> isInvalidInput ConfigNil \<and>
   BuildClientJSON None = Inl ClientConfigNil \<and> isInvalidInput ClientConfigNil \<and>
   (isl (BuildServerJSON (Some cfg)) \<longleftrightarrow>
      isl (splitHostPort (cfg_Listen cfg)) \<or>
      (\<exists>fb \<in> set (cfg_Fallbacks cfg). isl (splitHostPort (fb_Listen fb)))) \<and>
   (case BuildServerJSON (Some cfg) of Inl e \<Rightarrow> isBadAddress e | Inr out \<Rightarrow> True) \<and>
   (isl (BuildClientJSON (Some cc)) \<longleftrightarrow> isl (splitHostPort (cc_LocalListen cc))) \<and>
   (case BuildClientJSON (Some cc) of Inl e \<Rightarrow> isBadAddress e | Inr out \<Rightarrow> True)"
  using BuildServerJSON_isl [of cfg] BuildServerJSON_error_kind [of cfg]
    BuildClientJSON_isl [of cc] BuildClientJSON_error_kind [of cc]
  by (simp add: BuildServerJSON_def BuildServerXC_def BuildClientJSON_def BuildClientXC_def)

text \<open>
  The configuration \<open>badHTTPClientConfig\<close> has the remote address \<open>example.org:https\<close>,
  whose port is not a number, and the secondary address \<open>noport\<close>; \<open>BuildClientJSON\<close>
  does not fail on it, and the remote address is written whole with port 443.
\<close>

theorem compile_errors_counterexample:
  "\<not> isl (BuildClientJSON (Some (snd (ValidateClient badHTTPClientConfig)))) \<and>
   parseServerAddr (cc_Server badHTTPClientConfig) = (''example.org:https'', 443) \<and>
   isl (splitHostPort (cc_HTTPListen badHTTPClientConfig))"
  by (simp add: test_config_defs ValidateClient_def BuildClientJSON_def BuildClientXC_def
      split_defs)

section \<open>Every rendered document is well-formed\<close>

lemma byte_lt_256: "byte c < 256"
  by (simp add: byte_def)

lemma digitChar_isDigit: "n < 10 \<Longrightarrow> isDigit (digitChar n)"
proof -
  assume "n < 10"
  then have "n \<in> {0, 1, 2, 3, 4, 5, 6, 7, 8, 9}" by auto
  then show ?thesis
    by (auto simp add: digitChar_def isDigit_def byte_def)
qed

lemma digitChar_zero: "n < 10 \<Longrightarrow> digitChar n = CHR ''0'' \<longleftrightarrow> n = 0"
proof -
  assume "n < 10"
  then have "n \<in> {0, 1, 2, 3, 4, 5, 6, 7, 8, 9}" by auto
  then show ?thesis
    by (auto simp add: digitChar_def)
qed

lemma hexDigit_isHex: "n < 16 \<Longrightarrow> isHex (hexDigit n)"
proof -
  assume "n < 16"
  then have "n < 8 \<or> (8 \<le> n \<and> n < 16)" by arith
  then have "n \<in> {7, 6, 5, 4, 3, 2, 1, 0} \<or> n \<in> {15, 14, 13, 12, 11, 10, 9, 8}"
    by auto
  then show ?thesis
    by (auto simp add: hexDigit_def isHex_def isDigit_def byte_def)
qed

lemma showNat_digits: "0 \<le> n \<Longrightarrow> showNat n \<noteq> [] \<and> list_all isDigit (showNat n)"
proof (induction n rule: showNat.induct)
  case (1 n)
  show ?case
  proof (cases "n < 10")
    case True
    with 1 show ?thesis
      by (subst showNat.simps, subst (2) showNat.simps) (simp add: digitChar_isDigit)
  next
    case False
    with 1 have "showNat (n div 10) \<noteq> [] \<and> list_all isDigit (showNat (n div 10))"
      by simp
    moreover have "nat (n mod 10) < 10" by simp
    ultimately show ?thesis using False
      by (subst showNat.simps, subst (2) showNat.simps) (simp add: digitChar_isDigit)
  qed
qed

lemma showNat_hd: "0 < n \<Longrightarrow> hd (showNat n) \<noteq> CHR ''0''"
proof (induction n rule: showNat.induct)
  case (1 n)
  show ?case
  proof (cases "n < 10")
    case True
    with 1 have "nat n < 10" "nat n \<noteq> 0" by auto
    then show ?thesis using True
      by (subst showNat.simps) (simp add: digitChar_zero)
  next
    case False
    with 1 have "hd (showNat (n div 10)) \<noteq> CHR ''0''" by simp
    moreover from False have "showNat (n div 10) \<noteq> []"
      using showNat_digits [of "n div 10"] by simp
    ultimately show ?thesis using False
      by (subst showNat.simps) simp
  qed
qed

lemma showNat_zero: "showNat 0 = ''0''"
  by (subst showNat.simps) (simp add: digitChar_def)

lemma runeSize_E2: "runeSize (CHR 0xE2 # r) = 0 \<or> runeSize (CHR 0xE2 # r) = 3"
  by (simp add: runeSize_def Let_def byte_def split: list.splits)

lemma runeSize_shape:
  "runeSize s = 0 \<or>
   (\<exists>c0 c1 r. s = c0 # c1 # r \<and> runeSize s = 2 \<and> highBytes [c0, c1]) \<or>
   (\<exists>c0 c1 c2 r. s = c0 # c1 # c2 # r \<and> runeSize s = 3 \<and> highBytes [c0, c1, c2]) \<or>
   (\<exists>c0 c1 c2 c3 r. s = c0 # c1 # c2 # c3 # r \<and> runeSize s = 4 \<and> highBytes [c0, c1, c2, c3])"
proof (cases s)
  case Nil
  then show ?thesis by (simp add: runeSize_def)
next
  case s1: (Cons c0 r0)
  show ?thesis
  proof (cases r0)
    case Nil
    with s1 show ?thesis by (simp add: runeSize_def Let_def)
  next
    case s2: (Cons c1 r1)
    show ?thesis
    proof (cases r1)
      case Nil
      with s1 s2 show ?thesis
        by (simp add: runeSize_def Let_def isCont_def highBytes_def)
    next
      case s3: (Cons c2 r2)
      show ?thesis
      proof (cases r2)
        case Nil
        with s1 s2 s3 show ?thesis
          by (simp add: runeSize_def Let_def isCont_def highBytes_def)
      next
        case s4: (Cons c3 r3)
        with s1 s2 s3 show ?thesis
          by (simp add: runeSize_def Let_def isCont_def highBytes_def)
      qed
    qed
  qed
qed

lemma runeSize_cases:
  obtains (invalid) "runeSize s = 0"
    | (two) c0 c1 r where "s = c0 # c1 # r" "runeSize s = 2" "highBytes [c0, c1]"
        "c0 \<noteq> CHR 0xE2"
    | (three) c0 c1 c2 r where "s = c0 # c1 # c2 # r" "runeSize s = 3"
        "highBytes [c0, c1, c2]"
    | (four) c0 c1 c2 c3 r where "s = c0 # c1 # c2 # c3 # r" "runeSize s = 4"
        "highBytes [c0, c1, c2, c3]" "c0 \<noteq> CHR 0xE2"
proof -
  have e2: "\<And>r n. runeSize (CHR 0xE2 # r) = n \<Longrightarrow> n = 0 \<or> n = 3"
    using runeSize_E2 by auto
  show ?thesis
    using runeSize_shape [of s] that e2
    by (elim disjE exE conjE) fastforce+
qed

lemma scanString_high:
  "highBytes xs \<Longrightarrow> scanString (xs @ ys) = scanString ys"
  by (induction xs) (auto simp add: highBytes_def dquote_def backslash_def byte_def)

lemma isHex_literals:
  "isHex (CHR ''f'')" "isHex (CHR ''d'')" "isHex (CHR ''2'')" "isHex (CHR ''0'')"
  "isHex (CHR ''8'')" "isHex (CHR ''9'')"
  by (simp_all add: isHex_def isDigit_def byte_def)

lemma scanString_escapeByte:
  "byte c < 128 \<Longrightarrow> \<not> htmlSafe c \<Longrightarrow> scanString (escapeByte c @ r) = scanString r"
proof -
  assume a: "byte c < 128"
  then have "byte c div 16 < 16" "byte c mod 16 < 16" by auto
  then have "isHex (hexDigit (byte c div 16))" "isHex (hexDigit (byte c mod 16))"
    by (simp_all add: hexDigit_isHex)
  then show ?thesis
    by (simp add: escapeByte_def backslash_def dquote_def isHex_literals)
qed

lemma scanString_u4:
  "isHex h1 \<Longrightarrow> isHex h2 \<Longrightarrow> isHex h3 \<Longrightarrow> isHex h4 \<Longrightarrow>
   scanString (backslash # CHR ''u'' # h1 # h2 # h3 # h4 # r) = scanString r"
  by (simp add: backslash_def dquote_def)

lemma scanString_appendString:
  "scanString (appendString s @ dquote # rest) = Some rest"
proof (induction "length s" arbitrary: s rule: less_induct)
  case less
  show ?case
  proof (cases s)
    case Nil
    then show ?thesis by simp
  next
    case (Cons c cs)
    have ih: "\<And>t. length t < length s \<Longrightarrow> scanString (appendString t @ dquote # rest) = Some rest"
      using less by blast
    show ?thesis
    proof (cases "byte c < 128")
      case True
      have tl: "scanString (appendString cs @ dquote # rest) = Some rest"
        using ih [of cs] Cons by simp
      show ?thesis
      proof (cases "htmlSafe c")
        case safe: True
        with True tl Cons show ?thesis
          by (simp add: htmlSafe_def)
      next
        case False
        with True tl Cons show ?thesis
          by (simp add: scanString_escapeByte)
      qed
    next
      case False
      show ?thesis
      proof (cases s rule: runeSize_cases)
        case invalid
        have "appendString s = backslash # ''ufffd'' @ appendString cs"
          using invalid False Cons by simp
        moreover have "scanString (appendString cs @ dquote # rest) = Some rest"
          using ih [of cs] Cons by simp
        ultimately show ?thesis
          by (simp del: scanString.simps scanEscape.simps add: scanString_u4 isHex_literals)
      next
        case (two c0 c1 r)
        have "appendString s = [c0, c1] @ appendString r"
          using two False Cons by simp
        moreover have "scanString (appendString r @ dquote # rest) = Some rest"
          using ih [of r] two by simp
        ultimately show ?thesis
          using two(3) scanString_high [of "[c0, c1]"] by simp
      next
        case (three c0 c1 c2 r)
        have r: "scanString (appendString r @ dquote # rest) = Some rest"
          using ih [of r] three by simp
        have "appendString s = backslash # ''u2028'' @ appendString r \<or>
              appendString s = backslash # ''u2029'' @ appendString r \<or>
              appendString s = [c0, c1, c2] @ appendString r"
          using three False Cons by simp
        then show ?thesis
          using r three(3) scanString_high [of "[c0, c1, c2]"]
          by (auto simp del: scanString.simps scanEscape.simps
              simp add: scanString_u4 isHex_literals)
      next
        case (four c0 c1 c2 c3 r)
        have "appendString s = [c0, c1, c2, c3] @ appendString r"
          using four False Cons by simp
        moreover have "scanString (appendString r @ dquote # rest) = Some rest"
          using ih [of r] four by simp
        ultimately show ?thesis
          using four(3) scanString_high [of "[c0, c1, c2, c3]"] by simp
      qed
    qed
  qed
qed

lemma okTail_simps [simp]:
  "okTail []" "okTail (CHR '','' # r)" "okTail (CHR '']'' # r)" "okTail (CHR ''}'' # r)"
  by (simp_all add: okTail_def)

lemma scanDigits_append:
  "list_all isDigit ds \<Longrightarrow> okTail rest \<Longrightarrow> scanDigits (ds @ rest) = rest"
proof (induction ds)
  case Nil
  then show ?case
    by (cases rest) (auto simp add: okTail_def isDigit_def byte_def)
next
  case (Cons d ds)
  then show ?case by simp
qed

lemma scanExp_tail: "okTail rest \<Longrightarrow> scanExp rest = Some rest"
  by (cases rest) (auto simp add: okTail_def scanExp_def)

lemma scanFrac_tail: "okTail rest \<Longrightarrow> scanFrac rest = Some rest"
  by (cases rest) (auto simp add: okTail_def scanFrac_def scanExp_tail)

lemma scanNumber_digits:
  assumes "isDigit d" "list_all isDigit ds" "d = CHR ''0'' \<longrightarrow> ds = []" "okTail rest"
  shows "scanNumber (d # ds @ rest) = Some rest"
    and "scanNumber (CHR ''-'' # d # ds @ rest) = Some rest"
proof -
  have d: "d \<noteq> CHR ''-''"
    using assms(1) by (auto simp add: isDigit_def byte_def)
  show "scanNumber (d # ds @ rest) = Some rest"
    using assms d by (auto simp add: scanNumber_def scanFrac_tail scanDigits_append)
  show "scanNumber (CHR ''-'' # d # ds @ rest) = Some rest"
    using assms d by (auto simp add: scanNumber_def scanFrac_tail scanDigits_append)
qed

lemma showNat_shape:
  assumes "0 \<le> n"
  shows "\<exists>d ds. showNat n = d # ds \<and> isDigit d \<and> list_all isDigit ds \<and>
           (d = CHR ''0'' \<longrightarrow> ds = [])"
proof (cases "n = 0")
  case True
  then show ?thesis
    by (simp add: showNat_zero isDigit_def byte_def)
next
  case False
  with assms have pos: "0 < n" by simp
  from showNat_digits [OF assms] obtain d ds where
    s: "showNat n = d # ds" "isDigit d" "list_all isDigit ds"
    by (cases "showNat n") auto
  from showNat_hd [OF pos] s have "d \<noteq> CHR ''0''" by simp
  with s show ?thesis by simp
qed

lemma scanNumber_showInt:
  assumes "okTail rest"
  shows "\<exists>c cs. showInt i @ rest = c # cs \<and> (c = CHR ''-'' \<or> isDigit c) \<and>
           scanNumber (c # cs) = Some rest"
proof (cases "i < 0")
  case True
  then have "0 \<le> - i" by simp
  from showNat_shape [OF this] obtain d ds where
    s: "showNat (- i) = d # ds" "isDigit d" "list_all isDigit ds" "d = CHR ''0'' \<longrightarrow> ds = []"
    by blast
  from scanNumber_digits(2) [OF s(2) s(3) s(4) assms] s(1) True show ?thesis
    by (simp add: showInt_def)
next
  case False
  then have "0 \<le> i" by simp
  from showNat_shape [OF this] obtain d ds where
    s: "showNat i = d # ds" "isDigit d" "list_all isDigit ds" "d = CHR ''0'' \<longrightarrow> ds = []"
    by blast
  from scanNumber_digits(1) [OF s(2) s(3) s(4) assms] s(1) s(2) False show ?thesis
    by (simp add: showInt_def)
qed

lemma scanValue_number:
  assumes "c = CHR ''-'' \<or> isDigit c"
  shows "scanValue (Suc n) (c # cs) = scanNumber (c # cs)"
proof -
  have ns: "\<not> isSpace c"
    using assms by (auto simp add: isDigit_def isSpace_def byte_def)
  have ne: "c \<noteq> CHR ''{''" "c \<noteq> CHR ''[''" "c \<noteq> dquote" "c \<noteq> CHR ''t''"
    "c \<noteq> CHR ''f''" "c \<noteq> CHR ''n''"
    using assms by (auto simp add: isDigit_def byte_def dquote_def)
  show ?thesis
    using assms ns ne by simp
qed

lemma scanValue_JNum:
  assumes "okTail rest"
  shows "scanValue (Suc n) (showInt i @ rest) = Some rest"
proof -
  from scanNumber_showInt [OF assms, of i] obtain c cs where
    "showInt i @ rest = c # cs" "c = CHR ''-'' \<or> isDigit c" "scanNumber (c # cs) = Some rest"
    by blast
  then show ?thesis
    by (simp only: scanValue_number)
qed

lemma showInt_start: "\<exists>c cs. showInt i = c # cs \<and> (c = CHR ''-'' \<or> isDigit c)"
proof (cases "i < 0")
  case True
  then show ?thesis by (simp add: showInt_def)
next
  case False
  then have "0 \<le> i" by simp
  from showNat_shape [OF this] False show ?thesis
    by (auto simp add: showInt_def)
qed

lemma Marshal_start: "\<exists>c cs. Marshal j = c # cs \<and> valueStart c"
proof (cases j)
  case (JNum i)
  from showInt_start [of i] show ?thesis
    using JNum by (auto simp add: valueStart_def isSpace_def isDigit_def byte_def)
qed (auto simp add: valueStart_def isSpace_def encodeString_def dquote_def)

lemma marshalElems_start: "xs \<noteq> [] \<Longrightarrow> \<exists>c cs. marshalElems xs = c # cs \<and> valueStart c"
proof (cases xs)
  case Nil
  assume "xs \<noteq> []"
  with Nil show ?thesis by simp
next
  case (Cons x ys)
  from Marshal_start [of x] obtain c cs where "Marshal x = c # cs" "valueStart c" by blast
  with Cons show ?thesis by (cases ys) auto
qed

lemma marshalMembers_start:
  "kvs \<noteq> [] \<Longrightarrow> \<exists>cs. marshalMembers kvs = dquote # cs"
proof (cases kvs)
  case Nil
  assume "kvs \<noteq> []"
  with Nil show ?thesis by simp
next
  case (Cons kv ms)
  obtain k v where "kv = (k, v)" by (cases kv)
  with Cons show ?thesis by (cases ms) (auto simp add: encodeString_def)
qed

lemma dquote_simps [simp]:
  "\<not> isSpace dquote" "dquote \<noteq> CHR ''{''" "dquote \<noteq> CHR ''[''"
  "CHR ''t'' \<noteq> dquote" "CHR ''f'' \<noteq> dquote" "CHR ''n'' \<noteq> dquote"
  "CHR ''{'' \<noteq> dquote" "CHR ''['' \<noteq> dquote" "CHR '':'' \<noteq> dquote"
  "dquote \<noteq> CHR ''}''" "dquote \<noteq> CHR '']''" "\<not> isSpace (CHR ''{'')" "\<not> isSpace (CHR ''['')"
  by (simp_all add: dquote_def isSpace_def)

lemma notSpace_simps [simp]:
  "\<not> isSpace (CHR '':'')" "\<not> isSpace (CHR '','')" "\<not> isSpace (CHR ''}'')"
  "\<not> isSpace (CHR '']'')" "\<not> isSpace (CHR ''t'')" "\<not> isSpace (CHR ''f'')"
  "\<not> isSpace (CHR ''n'')"
  by (simp_all add: isSpace_def)

lemma scanLiteral_append: "scanLiteral l (l @ rest) = Some rest"
  by (induction l) auto

lemma scanValue_string:
  "scanValue (Suc n) (encodeString s @ rest) = Some rest"
  by (simp add: encodeString_def scanString_appendString)

lemma scanValue_Marshal_aux:
  "(\<forall>f rest. length (Marshal j) \<le> f \<longrightarrow> okTail rest \<longrightarrow>
      scanValue f (Marshal j @ rest) = Some rest)"
  "xs \<noteq> [] \<longrightarrow>
     (\<forall>f rest. length (marshalElems xs) < f \<longrightarrow>
        scanElems f (marshalElems xs @ CHR '']'' # rest) = Some rest)"
  "kvs \<noteq> [] \<longrightarrow>
     (\<forall>f rest. length (marshalMembers kvs) < f \<longrightarrow>
        scanMembers f (marshalMembers kvs @ CHR ''}'' # rest) = Some rest)"
proof (induction j and xs and kvs rule: Marshal_marshalElems_marshalMembers.induct)
  case 1
  show ?case
  proof (intro allI impI)
    fix f rest
    assume "length (Marshal JNull) \<le> f"
    then obtain n where "f = Suc n" by (cases f) auto
    then show "scanValue f (Marshal JNull @ rest) = Some rest"
      by simp
  qed
next
  case (2 b)
  show ?case
  proof (intro allI impI)
    fix f rest
    assume "length (Marshal (JBool b)) \<le> f"
    then obtain n where "f = Suc n" by (cases f) (auto split: if_splits)
    then show "scanValue f (Marshal (JBool b) @ rest) = Some rest"
      by simp
  qed
next
  case (3 i)
  show ?case
  proof (intro allI impI)
    fix f rest
    assume len: "length (Marshal (JNum i)) \<le> f" and tail: "okTail rest"
    from showInt_start [of i] len obtain n where "f = Suc n" by (cases f) auto
    then show "scanValue f (Marshal (JNum i) @ rest) = Some rest"
      using scanValue_JNum [OF tail] by simp
  qed
next
  case (4 s)
  show ?case
  proof (intro allI impI)
    fix f rest
    assume "length (Marshal (JStr s)) \<le> f"
    then obtain n where "f = Suc n" by (cases f) (auto simp add: encodeString_def)
    then show "scanValue f (Marshal (JStr s) @ rest) = Some rest"
      using scanValue_string by simp
  qed
next
  case (5 xs)
  show ?case
  proof (intro allI impI)
    fix f rest
    assume len: "length (Marshal (JArr xs)) \<le> f"
    then obtain n where f: "f = Suc n" by (cases f) auto
    show "scanValue f (Marshal (JArr xs) @ rest) = Some rest"
    proof (cases "xs = []")
      case True
      with f show ?thesis by simp
    next
      case False
      from marshalElems_start [OF False] obtain c cs where
        st: "marshalElems xs = c # cs" "valueStart c" by blast
      from len f have "length (marshalElems xs) < n" by simp
      with 5 False have "scanElems n (marshalElems xs @ CHR '']'' # rest) = Some rest"
        by blast
      with st f show ?thesis
        by (simp add: valueStart_def)
    qed
  qed
next
  case (6 kvs)
  show ?case
  proof (intro allI impI)
    fix f rest
    assume len: "length (Marshal (JObj kvs)) \<le> f"
    then obtain n where f: "f = Suc n" by (cases f) auto
    show "scanValue f (Marshal (JObj kvs) @ rest) = Some rest"
    proof (cases "kvs = []")
      case True
      with f show ?thesis by simp
    next
      case False
      from marshalMembers_start [OF False] obtain cs where
        st: "marshalMembers kvs = dquote # cs" by blast
      from len f have "length (marshalMembers kvs) < n" by simp
      with 6 False have "scanMembers n (marshalMembers kvs @ CHR ''}'' # rest) = Some rest"
        by blast
      with st f show ?thesis
        by simp
    qed
  qed
next
  case 7
  show ?case by simp
next
  case (8 x)
  show ?case
  proof (intro allI impI)
    fix f rest
    assume len: "length (marshalElems [x]) < f"
    then obtain n where f: "f = Suc n" by (cases f) auto
    with len have "length (Marshal x) \<le> n" by simp
    with 8 have "scanValue n (Marshal x @ CHR '']'' # rest) = Some (CHR '']'' # rest)"
      by simp
    with f show "scanElems f (marshalElems [x] @ CHR '']'' # rest) = Some rest"
      by simp
  qed
next
  case (9 x y ys)
  show ?case
  proof (intro allI impI)
    fix f rest
    assume len: "length (marshalElems (x # y # ys)) < f"
    then obtain n where f: "f = Suc n" by (cases f) auto
    let ?tl = "marshalElems (y # ys) @ CHR '']'' # rest"
    from len f have "length (Marshal x) \<le> n" by simp
    with 9(1) have "scanValue n (Marshal x @ CHR '','' # ?tl) = Some (CHR '','' # ?tl)"
      by simp
    moreover from len f have "length (marshalElems (y # ys)) < n" by simp
    with 9(2) have "scanElems n ?tl = Some rest" by simp
    ultimately show "scanElems f (marshalElems (x # y # ys) @ CHR '']'' # rest) = Some rest"
      using f by simp
  qed
next
  case 10
  show ?case by simp
next
  case (11 k v)
  show ?case
  proof (intro allI impI)
    fix f rest
    assume len: "length (marshalMembers [(k, v)]) < f"
    then obtain n where f: "f = Suc n" by (cases f) auto
    let ?tl = "CHR ''}'' # rest"
    from len f have "length (Marshal v) \<le> n" by simp
    with 11 have v: "scanValue n (Marshal v @ ?tl) = Some ?tl" by simp
    have "marshalMembers [(k, v)] @ ?tl =
            dquote # appendString k @ dquote # CHR '':'' # Marshal v @ ?tl"
      by (simp add: encodeString_def)
    then show "scanMembers f (marshalMembers [(k, v)] @ CHR ''}'' # rest) = Some rest"
      using f v
      by (simp add: scanString_appendString del: marshalMembers.simps)
  qed
next
  case (12 k v m ms)
  show ?case
  proof (intro allI impI)
    fix f rest
    assume len: "length (marshalMembers ((k, v) # m # ms)) < f"
    then obtain n where f: "f = Suc n" by (cases f) auto
    let ?tl = "marshalMembers (m # ms) @ CHR ''}'' # rest"
    from len f have "length (Marshal v) \<le> n" by simp
    with 12(1) have v: "scanValue n (Marshal v @ CHR '','' # ?tl) = Some (CHR '','' # ?tl)"
      by simp
    from len f have "length (marshalMembers (m # ms)) < n" by simp
    with 12(2) have tl: "scanMembers n ?tl = Some rest" by simp
    have "marshalMembers ((k, v) # m # ms) @ CHR ''}'' # rest =
            dquote # appendString k @ dquote # CHR '':'' # Marshal v @ CHR '','' # ?tl"
      by (simp add: encodeString_def)
    then show "scanMembers f (marshalMembers ((k, v) # m # ms) @ CHR ''}'' # rest) = Some rest"
      using f v tl
      by (simp add: scanString_appendString del: marshalMembers.simps)
  qed
qed

lemma jsonValid_Marshal: "jsonValid (Marshal j)"
  using scanValue_Marshal_aux(1) [rule_format, of j "Suc (length (Marshal j))" "[]"]
  by (simp add: jsonValid_def)

section \<open>The engine supervisor\<close>

lemma BuildServerJSON_Inr:
  "BuildServerJSON cfgp = Inr doc \<Longrightarrow> \<exists>j. doc = Marshal j"
  by (auto simp add: BuildServerJSON_def split: sum.splits)

lemma BuildClientJSON_Inr:
  "BuildClientJSON cfgp = Inr doc \<Longrightarrow> \<exists>j. doc = Marshal j"
  by (auto simp add: BuildClientJSON_def split: sum.splits)

lemma stubLoader_built:
  "BuildServerJSON cfgp = Inr doc \<or> BuildClientJSON ccp = Inr doc \<Longrightarrow>
   stubLoader doc = Inr stubInstance"
proof -
  assume "BuildServerJSON cfgp = Inr doc \<or> BuildClientJSON ccp = Inr doc"
  then obtain j where "doc = Marshal j"
    using BuildServerJSON_Inr BuildClientJSON_Inr by blast
  then show ?thesis
    by (simp add: stubLoader_def jsonValid_Marshal)
qed

lemma startBuilt_success:
  assumes "eng_loader e doc = Inr inst" "inst_Start inst = None"
  shows "fst (startBuilt e (Inr doc)) = None"
    and "eng_status (snd (startBuilt e (Inr doc))) = StatusRunning"
    and "eng_instance (snd (startBuilt e (Inr doc))) = Some inst"
    and "eng_jsonConfig (snd (startBuilt e (Inr doc))) = Some doc"
    and "eng_loader (snd (startBuilt e (Inr doc))) = eng_loader e"
    and "eng_config (snd (startBuilt e (Inr doc))) = eng_config e"
    and "eng_clientConfig (snd (startBuilt e (Inr doc))) = eng_clientConfig e"
    and "eng_mode (snd (startBuilt e (Inr doc))) = eng_mode e"
  using assms by (simp_all add: startBuilt_def logTo_def Let_def)

lemma Start_success:
  assumes "eng_status e \<noteq> StatusRunning"
    and "(eng_mode e = ModeServer \<and> eng_config e = Some cfg \<and>
          BuildServerJSON (Some cfg) = Inr doc) \<or>
         (eng_mode e = ModeClient \<and> eng_clientConfig e = Some cc \<and>
          BuildClientJSON (Some cc) = Inr doc)"
    and "eng_loader e doc = Inr inst"
    and "inst_Start inst = None"
  shows "fst (Start e) = None"
    and "eng_status (snd (Start e)) = StatusRunning"
    and "eng_instance (snd (Start e)) = Some inst"
    and "eng_jsonConfig (snd (Start e)) = Some doc"
  using assms
  by (auto simp add: Start_def Let_def logTo_def startBuilt_success)

lemma startBuilt_not_AlreadyRunning: "fst (startBuilt e built) \<noteq> Some AlreadyRunning"
  by (simp add: startBuilt_def Let_def split: sum.splits option.splits)

lemma Start_AlreadyRunning_iff:
  "fst (Start e) = Some AlreadyRunning \<longleftrightarrow> eng_status e = StatusRunning"
  by (simp add: Start_def Let_def startBuilt_not_AlreadyRunning
      split: EngineMode.splits option.splits)

lemma Start_running:
  "eng_status e = StatusRunning \<Longrightarrow> Start e = (Some AlreadyRunning, e)"
  by (simp add: Start_def)

lemma Stop_running:
  assumes "eng_status e = StatusRunning"
  shows "fst (Stop e) = None"
    and "eng_status (snd (Stop e)) = StatusStopped"
    and "eng_instance (snd (Stop e)) = None"
  using assms by (simp_all add: Stop_def Let_def logTo_def split: option.splits)

lemma Stop_not_running:
  "eng_status e \<noteq> StatusRunning \<Longrightarrow> Stop e = (Some (NotRunning (eng_status e)), e)"
  by (simp add: Stop_def)

lemma Stop_logs_close_error:
  assumes "eng_status e = StatusRunning" "eng_instance e = Some inst"
    "inst_Close inst = Some err"
  shows "(ErrorLevel, ''error closing xray instance'', [(''error'', err)])
           \<in> set (eng_logger (snd (Stop e)))"
  using assms by (simp add: Stop_def Let_def logTo_def)

text \<open>
  Claim C10. \<open>Engine.Start\<close> returns the already-running error exactly when the status
  is \<open>running\<close>. From every other status (\<open>error\<close> after a failed start included), if
  the builder of the engine's mode succeeds, the loader returns an instance for the
  document and \<open>Start\<close> of the instance succeeds, then \<open>Engine.Start\<close> returns nil, the
  status is \<open>running\<close> and the engine holds the instance.
\<close>

theorem start_rejected_only_when_running:
  "(fst (Start e) = Some AlreadyRunning \<longleftrightarrow> eng_status e = StatusRunning) \<and>
   (eng_status e \<noteq> StatusRunning \<and>
    ((eng_mode e = ModeServer \<and> eng_config e = Some cfg \<and>
      BuildServerJSON (Some cfg) = Inr doc) \<or>
     (eng_mode e = ModeClient \<and> eng_clientConfig e = Some cc \<and>
      BuildClientJSON (Some cc) = Inr doc)) \<and>
    eng_loader e doc = Inr inst \<and> inst_Start inst = None \<longrightarrow>
    fst (Start e) = None \<and> eng_status (snd (Start e)) = StatusRunning \<and>
    eng_instance (snd (Start e)) = Some inst)"
  using Start_AlreadyRunning_iff [of e] Start_success [of e cfg doc cc inst]
  by blast

text \<open>
  An engine whose status is \<open>error\<close>, as a failed start leaves it, starts on the next
  call: the engine of the test suite's server configuration with the stub loader.
\<close>

theorem start_rejected_only_when_running_witness:
  "eng_status errorEngine = StatusError \<and>
   fst (Start errorEngine) \<noteq> Some AlreadyRunning \<and>
   \<not> isl (BuildServerJSON (eng_config errorEngine)) \<and>
   fst (Start errorEngine) = None \<and>
   eng_status (snd (Start errorEngine)) = StatusRunning \<and>
   eng_instance (snd (Start errorEngine)) = Some stubInstance"
proof -
  define cfg where "cfg = snd (Validate decoyConfig)"
  define doc where "doc = projr (BuildServerJSON (Some cfg))"
  have e: "eng_status errorEngine = StatusError" "eng_mode errorEngine = ModeServer"
    "eng_config errorEngine = Some cfg" "eng_loader errorEngine = stubLoader"
    by (simp_all add: errorEngine_def decoyEngine_def NewEngine_def cfg_def
        test_config_defs Validate_def)
  have "\<not> isl (BuildServerJSON (Some cfg))"
    by (simp add: BuildServerJSON_isl cfg_def test_config_defs Validate_def split_defs)
  then have built: "BuildServerJSON (Some cfg) = Inr doc"
    by (cases "BuildServerJSON (Some cfg)") (simp_all add: doc_def)
  have load: "eng_loader errorEngine doc = Inr stubInstance"
    using stubLoader_built [of "Some cfg" doc None] built e(4) by simp
  have st: "inst_Start stubInstance = None"
    by (simp add: stubInstance_def)
  from start_rejected_only_when_running [of errorEngine cfg doc undefined stubInstance]
    e built load st
  show ?thesis by simp
qed

text \<open>
  Claim C4, as amended. The claim holds for an engine whose configuration compiles:
  a validated configuration can still carry a listen address that does not split, and
  then the first \<open>Start\<close> fails. For an engine made by \<open>NewEngine\<close> or
  \<open>NewClientEngine\<close> with the stub loader, whose configuration the builder accepts:
  the status is \<open>stopped\<close>; the first \<open>Start\<close> returns nil and the status is
  \<open>running\<close>; the second \<open>Start\<close> returns the already-running error and changes
  nothing; the first \<open>Stop\<close> returns nil and the status is \<open>stopped\<close>; the second
  \<open>Stop\<close> returns the not-running error and changes nothing. For any running engine
  \<open>e\<close> whose instance returns an error from \<open>Close\<close>, \<open>Stop\<close> still returns nil with
  status \<open>stopped\<close>, and the error is in the log.
\<close>

theorem engine_lifecycle:
  assumes constructed:
      "NewEngine stubLoader cfgp = Inr e0 \<or> NewClientEngine stubLoader ccp = Inr e0"
    and compiles:
      "\<not> isl (BuildServerJSON (eng_config e0)) \<or> \<not> isl (BuildClientJSON (eng_clientConfig e0))"
  shows "eng_status e0 = StatusStopped \<and>
         fst (Start e0) = None \<and>
         eng_status (snd (Start e0)) = StatusRunning \<and>
         Start (snd (Start e0)) = (Some AlreadyRunning, snd (Start e0)) \<and>
         fst (Stop (snd (Start e0))) = None \<and>
         eng_status (snd (Stop (snd (Start e0)))) = StatusStopped \<and>
         Stop (snd (Stop (snd (Start e0)))) =
           (Some (NotRunning StatusStopped), snd (Stop (snd (Start e0)))) \<and>
         (eng_status e = StatusRunning \<and> eng_instance e = Some inst \<and>
          inst_Close inst = Some err \<longrightarrow>
          fst (Stop e) = None \<and> eng_status (snd (Stop e)) = StatusStopped \<and>
          (ErrorLevel, ''error closing xray instance'', [(''error'', err)])
            \<in> set (eng_logger (snd (Stop e))))"
proof -
  from constructed have init:
    "eng_status e0 = StatusStopped" "eng_loader e0 = stubLoader"
    "(eng_mode e0 = ModeServer \<and> eng_clientConfig e0 = None) \<or>
     (eng_mode e0 = ModeClient \<and> eng_config e0 = None)"
    by (auto simp add: NewEngine_def NewClientEngine_def
        split: option.splits prod.splits)
  have nil: "isl (BuildServerJSON None)" "isl (BuildClientJSON None)"
    by (simp_all add: BuildServerJSON_def BuildServerXC_def BuildClientJSON_def
        BuildClientXC_def)
  from init(3) compiles nil obtain doc cfg cc where built:
    "(eng_mode e0 = ModeServer \<and> eng_config e0 = Some cfg \<and>
      BuildServerJSON (Some cfg) = Inr doc) \<or>
     (eng_mode e0 = ModeClient \<and> eng_clientConfig e0 = Some cc \<and>
      BuildClientJSON (Some cc) = Inr doc)"
    by (cases "eng_config e0"; cases "eng_clientConfig e0";
        cases "BuildServerJSON (eng_config e0)"; cases "BuildClientJSON (eng_clientConfig e0)")
      auto
  then have load: "eng_loader e0 doc = Inr stubInstance"
    using stubLoader_built [of "Some cfg" doc "Some cc"] init(2) by auto
  have st: "inst_Start stubInstance = None"
    by (simp add: stubInstance_def)
  have not_running: "eng_status e0 \<noteq> StatusRunning"
    using init(1) by simp
  note s1 = Start_success [OF not_running built load st]
  note s2 = Start_running [OF s1(2)]
  note s3 = Stop_running [OF s1(2)]
  have "eng_status (snd (Stop (snd (Start e0)))) \<noteq> StatusRunning"
    using s3(2) by simp
  note s4 = Stop_not_running [OF this]
  show ?thesis
    using init(1) s1 s2 s3 s4 Stop_running [of e] Stop_logs_close_error [of e inst err]
    by simp
qed

theorem engine_lifecycle_witness:
  "NewEngine stubLoader (Some decoyConfig) = Inr decoyEngine \<and>
   \<not> isl (BuildServerJSON (eng_config decoyEngine)) \<and>
   eng_status decoyEngine = StatusStopped \<and>
   fst (Start decoyEngine) = None \<and>
   eng_status (snd (Start decoyEngine)) = StatusRunning \<and>
   Start (snd (Start decoyEngine)) = (Some AlreadyRunning, snd (Start decoyEngine)) \<and>
   fst (Stop (snd (Start decoyEngine))) = None \<and>
   eng_status (snd (Stop (snd (Start decoyEngine)))) = StatusStopped \<and>
   Stop (snd (Stop (snd (Start decoyEngine)))) =
     (Some (NotRunning StatusStopped), snd (Stop (snd (Start decoyEngine)))) \<and>
   eng_status closeFailsEngine = StatusRunning \<and>
   eng_instance closeFailsEngine = Some closeFailsInstance \<and>
   inst_Close closeFailsInstance = Some ''close failed'' \<and>
   fst (Stop closeFailsEngine) = None \<and>
   eng_status (snd (Stop closeFailsEngine)) = StatusStopped \<and>
   (ErrorLevel, ''error closing xray instance'', [(''error'', ''close failed'')])
     \<in> set (eng_logger (snd (Stop closeFailsEngine)))"
proof -
  have c: "NewEngine stubLoader (Some decoyConfig) = Inr decoyEngine"
    by (simp add: decoyEngine_def NewEngine_def test_config_defs Validate_def)
  have "eng_config decoyEngine = Some (snd (Validate decoyConfig))"
    by (simp add: decoyEngine_def NewEngine_def test_config_defs Validate_def)
  then have b: "\<not> isl (BuildServerJSON (eng_config decoyEngine))"
    by (simp add: BuildServerJSON_isl test_config_defs Validate_def split_defs)
  have f: "eng_status closeFailsEngine = StatusRunning"
    "eng_instance closeFailsEngine = Some closeFailsInstance"
    "inst_Close closeFailsInstance = Some ''close failed''"
    by (simp_all add: closeFailsEngine_def closeFailsInstance_def)
  from engine_lifecycle [of "Some decoyConfig" decoyEngine None closeFailsEngine
      closeFailsInstance "''close failed''"] c b f
  show ?thesis by simp
qed

text \<open>
  The engine of \<open>noPortConfig\<close>: \<open>NewEngine\<close> accepts the configuration (it passes
  \<open>Validate\<close>) and returns a stopped engine with the stub loader; the first \<open>Start\<close>
  fails in the builder and leaves the status \<open>error\<close>.
\<close>

theorem engine_lifecycle_counterexample:
  "\<not> isl (NewEngine stubLoader (Some noPortConfig)) \<and>
   eng_status noPortEngine = StatusStopped \<and>
   fst (Start noPortEngine) =
     Some (BuildFailed (InvalidListenAddress (NoPort ''noport''))) \<and>
   eng_status (snd (Start noPortEngine)) = StatusError"
  by (simp add: noPortEngine_def NewEngine_def test_config_defs Validate_def Start_def
      startBuilt_def logTo_def BuildServerJSON_def BuildServerXC_def split_defs)

section \<open>The control surface\<close>

lemma handleConnect_conflict_iff:
  "resp_code (fst (handleConnect now s)) = StatusConflict \<longleftrightarrow> srv_connected s"
  by (auto simp add: handleConnect_def writeError_def writeJSON_def StatusConflict_def
      StatusInternalServerError_def split: prod.splits option.splits)

lemma clientEngine_running:
  "eng_status (snd (Start clientEngine)) = StatusRunning"
proof -
  define cc where "cc = snd (ValidateClient httpClientConfig)"
  define doc where "doc = projr (BuildClientJSON (Some cc))"
  have e: "eng_status clientEngine = StatusStopped" "eng_mode clientEngine = ModeClient"
    "eng_clientConfig clientEngine = Some cc" "eng_loader clientEngine = stubLoader"
    by (simp_all add: clientEngine_def NewClientEngine_def cc_def test_config_defs
        ValidateClient_def)
  have "\<not> isl (BuildClientJSON (Some cc))"
    by (simp add: BuildClientJSON_isl cc_def test_config_defs ValidateClient_def split_defs)
  then have built: "BuildClientJSON (Some cc) = Inr doc"
    by (cases "BuildClientJSON (Some cc)") (simp_all add: doc_def)
  have load: "eng_loader clientEngine doc = Inr stubInstance"
    using stubLoader_built [of None doc "Some cc"] built e(4) by simp
  have st: "inst_Start stubInstance = None"
    by (simp add: stubInstance_def)
  from Start_success(2) [of clientEngine undefined doc cc stubInstance] e built load st
  show ?thesis by simp
qed

text \<open>
  Claim C8: what the code does. \<open>handleConnect\<close> answers Conflict exactly when the
  flag \<open>connected\<close> of the server is set, whatever the status of the engine. On the
  server of the client program (\<open>NewServer\<close> over an engine already started) the
  engine is running and the flag is not set: \<open>handleConnect\<close> calls \<open>Start\<close>, which
  fails, and answers Internal Server Error with the already-running error, not
  Conflict.
\<close>

theorem connect_tests_cached_flag:
  "(resp_code (fst (handleConnect now s)) = StatusConflict \<longleftrightarrow> srv_connected s) \<and>
   Status (srv_engine startedServer) = StatusRunning \<and>
   \<not> srv_connected startedServer \<and>
   fst (handleConnect now startedServer) =
     writeError StatusInternalServerError (ErrorOf AlreadyRunning) \<and>
   resp_code (fst (handleConnect now startedServer)) \<noteq> StatusConflict"
  using handleConnect_conflict_iff [of now s] clientEngine_running
  by (simp add: startedServer_def NewServer_def Status_def handleConnect_def Start_running
      writeError_def StatusConflict_def StatusInternalServerError_def)

section \<open>Rotation controllers\<close>

lemma removeByID_None_iff:
  "removeByID ident es = None \<longleftrightarrow> ident \<notin> ep_ID ` set es"
  by (induction es) (auto split: option.splits)

lemma Retire_unknown:
  "ep_ID ep \<notin> ep_ID ` set (ctl_endpoints c) \<Longrightarrow>
   Retire c ep = (Some (EndpointNotFound (ep_ID ep)), c)"
  using removeByID_None_iff [of "ep_ID ep" "ctl_endpoints c"]
  by (simp add: Retire_def)

lemma wrap64_id: "- (2 ^ 63) \<le> x \<Longrightarrow> x < 2 ^ 63 \<Longrightarrow> wrap64 x = x"
  by (simp add: wrap64_def)

lemma removeByID_split:
  "removeByID ident es = Some es' \<Longrightarrow>
   \<exists>pre e post. es = pre @ e # post \<and> ep_ID e = ident \<and>
                 (\<forall>x \<in> set pre. ep_ID x \<noteq> ident) \<and> es' = pre @ post"
proof (induction es arbitrary: es')
  case Nil
  then show ?case by simp
next
  case (Cons a es)
  show ?case
  proof (cases "ep_ID a = ident")
    case True
    with Cons.prems have "es' = es" by simp
    with True show ?thesis
      by (intro exI [of _ "[]"] exI [of _ a] exI [of _ es]) simp
  next
    case False
    with Cons.prems obtain r where r: "removeByID ident es = Some r" "es' = a # r"
      by (auto split: option.splits)
    from Cons.IH [OF r(1)] obtain pre e post where
      p: "es = pre @ e # post" "ep_ID e = ident" "\<forall>x \<in> set pre. ep_ID x \<noteq> ident"
         "r = pre @ post" by blast
    with False r(2) show ?thesis
      by (intro exI [of _ "a # pre"] exI [of _ e] exI [of _ post]) simp
  qed
qed

lemma removeByID_Some:
  "ident \<in> ep_ID ` set es \<Longrightarrow> \<exists>es'. removeByID ident es = Some es'"
  using removeByID_None_iff [of ident es] by (cases "removeByID ident es") auto

lemma Retire_result:
  "fst (Retire c ep) =
     (if ep_ID ep \<in> ep_ID ` set (ctl_endpoints c) then None
      else Some (EndpointNotFound (ep_ID ep)))"
  using removeByID_None_iff [of "ep_ID ep" "ctl_endpoints c"]
  by (cases "removeByID (ep_ID ep) (ctl_endpoints c)") (simp_all add: Retire_def)

lemma Retire_endpoints:
  "ctl_endpoints (snd (Retire c ep)) = removeIfPresent (ep_ID ep) (ctl_endpoints c)"
  by (simp add: Retire_def removeIfPresent_def ctlLog_def split: option.splits)

lemma Retire_removes_first:
  assumes "ep_ID ep \<in> ep_ID ` set (ctl_endpoints c)"
  shows "\<exists>pre e post. ctl_endpoints c = pre @ e # post \<and> ep_ID e = ep_ID ep \<and>
           (\<forall>x \<in> set pre. ep_ID x \<noteq> ep_ID ep) \<and>
           ctl_endpoints (snd (Retire c ep)) = pre @ post"
proof -
  from removeByID_Some [OF assms] obtain es' where
    r: "removeByID (ep_ID ep) (ctl_endpoints c) = Some es'" by blast
  then have "ctl_endpoints (snd (Retire c ep)) = es'"
    by (simp add: Retire_def ctlLog_def)
  with removeByID_split [OF r] show ?thesis by simp
qed

lemma CloudflareRetire_own:
  "ep_Provider ep = ''cloudflare'' \<Longrightarrow>
   fst (CloudflareRetire deleteWorker cf ep) = None \<and>
   ctl_endpoints (cf_base (snd (CloudflareRetire deleteWorker cf ep))) =
     ctl_endpoints (snd (Retire (cf_base cf) ep)) \<and>
   ctl_logger (cf_base (snd (CloudflareRetire deleteWorker cf ep))) =
     ctl_logger (cf_base cf) @
     (InfoLevel, ''retiring cloudflare worker'', [(''name'', ep_ID ep)]) #
     (case deleteWorker (ep_ID ep) of
        None \<Rightarrow> []
      | Some err \<Rightarrow> [(WarnLevel, ''failed to delete worker (may not exist)'', [(''error'', err)])])"
  by (simp add: CloudflareRetire_def Let_def ctlLog_def Retire_endpoints split: option.splits)

lemma AWSRetire_own:
  "ep_Provider ep = ''aws'' \<Longrightarrow>
   fst (AWSRetire deleteFunction a ep) = None \<and>
   ctl_endpoints (aws_base (snd (AWSRetire deleteFunction a ep))) =
     ctl_endpoints (snd (Retire (aws_base a) ep)) \<and>
   ctl_logger (aws_base (snd (AWSRetire deleteFunction a ep))) =
     ctl_logger (aws_base a) @
     (InfoLevel, ''retiring aws lambda'', [(''name'', ep_ID ep)]) #
     (case deleteFunction (ep_ID ep) of
        None \<Rightarrow> []
      | Some err \<Rightarrow> [(WarnLevel, ''failed to delete lambda'', [(''error'', err)])])"
  by (simp add: AWSRetire_def Let_def ctlLog_def Retire_endpoints split: option.splits)

lemma expired_not_active:
  "\<forall>e \<in> set (ctl_endpoints c). ep_ID e = ident \<longrightarrow> IsExpired e now \<Longrightarrow>
   ident \<notin> ep_ID ` set (ActiveEndpoints c now)"
  by (auto simp add: ActiveEndpoints_def)

lemma unheld_not_active:
  "ident \<notin> ep_ID ` set (ctl_endpoints c) \<Longrightarrow> ident \<notin> ep_ID ` set (ActiveEndpoints c now)"
  by (auto simp add: ActiveEndpoints_def)

lemma rotatedOnce_endpoints: "ctl_endpoints rotatedOnce = [noopEndpoint 1 0]"
  by (simp add: rotatedOnce_def Rotate_def NewNoOpController_def noopEndpoint_def ctlLog_def
      Let_def wrap64_def)

text \<open>
  Claim C7, as amended. \<open>Retire\<close> of the local controller searches the list the
  controller holds, in which expired endpoints stay until they are retired. It returns
  the not-found error exactly when no endpoint of that list has the identifier, and
  then changes nothing; such an identifier is not among the active (unexpired)
  endpoints either. Otherwise it returns nil and removes the first endpoint with the
  identifier, also when every endpoint with the identifier has expired, that is, when
  the identifier is not among the active endpoints. For an endpoint that does not carry
  their own provider tag the Cloudflare and AWS controllers return what the embedded
  local controller returns. For an endpoint that carries their own provider tag they
  call the provider, write its error (if any) to the log as a warning, remove the
  endpoint from the list if it is there and return nil, whether it was there or not.
\<close>

theorem retire_unknown_endpoint:
  "fst (Retire c ep) =
     (if ep_ID ep \<in> ep_ID ` set (ctl_endpoints c) then None
      else Some (EndpointNotFound (ep_ID ep))) \<and>
   (ep_ID ep \<notin> ep_ID ` set (ctl_endpoints c) \<longrightarrow>
      snd (Retire c ep) = c \<and> ep_ID ep \<notin> ep_ID ` set (ActiveEndpoints c now)) \<and>
   (ep_ID ep \<in> ep_ID ` set (ctl_endpoints c) \<longrightarrow>
      (\<exists>pre e post. ctl_endpoints c = pre @ e # post \<and> ep_ID e = ep_ID ep \<and>
         (\<forall>x \<in> set pre. ep_ID x \<noteq> ep_ID ep) \<and>
         ctl_endpoints (snd (Retire c ep)) = pre @ post)) \<and>
   (ep_ID ep \<in> ep_ID ` set (ctl_endpoints c) \<and>
    (\<forall>e \<in> set (ctl_endpoints c). ep_ID e = ep_ID ep \<longrightarrow> IsExpired e now) \<longrightarrow>
      ep_ID ep \<notin> ep_ID ` set (ActiveEndpoints c now) \<and> fst (Retire c ep) = None) \<and>
   (ep_Provider ep \<noteq> ''cloudflare'' \<longrightarrow>
      CloudflareRetire deleteWorker cf ep =
        (fst (Retire (cf_base cf) ep), cf\<lparr>cf_base := snd (Retire (cf_base cf) ep)\<rparr>)) \<and>
   (ep_Provider ep = ''cloudflare'' \<longrightarrow>
      fst (CloudflareRetire deleteWorker cf ep) = None \<and>
      ctl_endpoints (cf_base (snd (CloudflareRetire deleteWorker cf ep))) =
        ctl_endpoints (snd (Retire (cf_base cf) ep)) \<and>
      ctl_logger (cf_base (snd (CloudflareRetire deleteWorker cf ep))) =
        ctl_logger (cf_base cf) @
        (InfoLevel, ''retiring cloudflare worker'', [(''name'', ep_ID ep)]) #
        (case deleteWorker (ep_ID ep) of
           None \<Rightarrow> []
         | Some err \<Rightarrow>
             [(WarnLevel, ''failed to delete worker (may not exist)'', [(''error'', err)])])) \<and>
   (ep_Provider ep \<noteq> ''aws'' \<longrightarrow>
      AWSRetire deleteFunction a ep =
        (fst (Retire (aws_base a) ep), a\<lparr>aws_base := snd (Retire (aws_base a) ep)\<rparr>)) \<and>
   (ep_Provider ep = ''aws'' \<longrightarrow>
      fst (AWSRetire deleteFunction a ep) = None \<and>
      ctl_endpoints (aws_base (snd (AWSRetire deleteFunction a ep))) =
        ctl_endpoints (snd (Retire (aws_base a) ep)) \<and>
      ctl_logger (aws_base (snd (AWSRetire deleteFunction a ep))) =
        ctl_logger (aws_base a) @
        (InfoLevel, ''retiring aws lambda'', [(''name'', ep_ID ep)]) #
        (case deleteFunction (ep_ID ep) of
           None \<Rightarrow> []
         | Some err \<Rightarrow> [(WarnLevel, ''failed to delete lambda'', [(''error'', err)])]))"
proof -
  have result: "fst (Retire c ep) =
     (if ep_ID ep \<in> ep_ID ` set (ctl_endpoints c) then None
      else Some (EndpointNotFound (ep_ID ep)))"
    by (rule Retire_result)
  have unknown: "ep_ID ep \<notin> ep_ID ` set (ctl_endpoints c) \<longrightarrow>
      snd (Retire c ep) = c \<and> ep_ID ep \<notin> ep_ID ` set (ActiveEndpoints c now)"
    using Retire_unknown [of ep c] unheld_not_active [of "ep_ID ep" c now] by simp
  have held: "ep_ID ep \<in> ep_ID ` set (ctl_endpoints c) \<longrightarrow>
      (\<exists>pre e post. ctl_endpoints c = pre @ e # post \<and> ep_ID e = ep_ID ep \<and>
         (\<forall>x \<in> set pre. ep_ID x \<noteq> ep_ID ep) \<and>
         ctl_endpoints (snd (Retire c ep)) = pre @ post)"
    using Retire_removes_first [of ep c] by blast
  have expired: "ep_ID ep \<in> ep_ID ` set (ctl_endpoints c) \<and>
    (\<forall>e \<in> set (ctl_endpoints c). ep_ID e = ep_ID ep \<longrightarrow> IsExpired e now) \<longrightarrow>
      ep_ID ep \<notin> ep_ID ` set (ActiveEndpoints c now) \<and> fst (Retire c ep) = None"
    using expired_not_active [of c "ep_ID ep" now] result by simp
  have cf_other: "ep_Provider ep \<noteq> ''cloudflare'' \<longrightarrow>
      CloudflareRetire deleteWorker cf ep =
        (fst (Retire (cf_base cf) ep), cf\<lparr>cf_base := snd (Retire (cf_base cf) ep)\<rparr>)"
    by (simp add: CloudflareRetire_def case_prod_beta)
  have cf_own: "ep_Provider ep = ''cloudflare'' \<longrightarrow>
      fst (CloudflareRetire deleteWorker cf ep) = None \<and>
      ctl_endpoints (cf_base (snd (CloudflareRetire deleteWorker cf ep))) =
        ctl_endpoints (snd (Retire (cf_base cf) ep)) \<and>
      ctl_logger (cf_base (snd (CloudflareRetire deleteWorker cf ep))) =
        ctl_logger (cf_base cf) @
        (InfoLevel, ''retiring cloudflare worker'', [(''name'', ep_ID ep)]) #
        (case deleteWorker (ep_ID ep) of
           None \<Rightarrow> []
         | Some err \<Rightarrow>
             [(WarnLevel, ''failed to delete worker (may not exist)'', [(''error'', err)])])"
    using CloudflareRetire_own [of ep deleteWorker cf] by blast
  have aws_other: "ep_Provider ep \<noteq> ''aws'' \<longrightarrow>
      AWSRetire deleteFunction a ep =
        (fst (Retire (aws_base a) ep), a\<lparr>aws_base := snd (Retire (aws_base a) ep)\<rparr>)"
    by (simp add: AWSRetire_def case_prod_beta)
  have aws_own: "ep_Provider ep = ''aws'' \<longrightarrow>
      fst (AWSRetire deleteFunction a ep) = None \<and>
      ctl_endpoints (aws_base (snd (AWSRetire deleteFunction a ep))) =
        ctl_endpoints (snd (Retire (aws_base a) ep)) \<and>
      ctl_logger (aws_base (snd (AWSRetire deleteFunction a ep))) =
        ctl_logger (aws_base a) @
        (InfoLevel, ''retiring aws lambda'', [(''name'', ep_ID ep)]) #
        (case deleteFunction (ep_ID ep) of
           None \<Rightarrow> []
         | Some err \<Rightarrow> [(WarnLevel, ''failed to delete lambda'', [(''error'', err)])])"
    using AWSRetire_own [of ep deleteFunction a] by blast
  from result unknown held expired cf_other cf_own aws_other aws_own show ?thesis
    by (intro conjI)
qed


theorem retire_unknown_endpoint_witness:
  "ctl_endpoints rotatedOnce = [noopEndpoint 1 0] \<and>
   ep_ID (unknownEndpoint ''noop'') \<notin> ep_ID ` set (ctl_endpoints rotatedOnce) \<and>
   Retire rotatedOnce (unknownEndpoint ''noop'') =
     (Some (EndpointNotFound ''nonexistent''), rotatedOnce) \<and>
   CloudflareRetire (\<lambda>name. None) cloudflareOne (unknownEndpoint ''noop'') =
     (Some (EndpointNotFound ''nonexistent''), cloudflareOne) \<and>
   AWSRetire (\<lambda>name. None) awsOne (unknownEndpoint ''noop'') =
     (Some (EndpointNotFound ''nonexistent''), awsOne) \<and>
   IsExpired (noopEndpoint 1 0) (2 * Hour) \<and>
   ActiveEndpoints rotatedOnce (2 * Hour) = [] \<and>
   fst (Retire rotatedOnce (noopEndpoint 1 0)) = None \<and>
   ctl_endpoints (snd (Retire rotatedOnce (noopEndpoint 1 0))) = [] \<and>
   ctl_endpoints (cf_base cloudflareOne) = [workerEndpoint] \<and>
   fst (CloudflareRetire (\<lambda>name. Some ''cloudflare delete error 404'') cloudflareOne
          workerEndpoint) = None \<and>
   ctl_endpoints (cf_base (snd (CloudflareRetire (\<lambda>name. Some ''cloudflare delete error 404'')
                                  cloudflareOne workerEndpoint))) = [] \<and>
   ctl_logger (cf_base (snd (CloudflareRetire (\<lambda>name. Some ''cloudflare delete error 404'')
                               cloudflareOne workerEndpoint))) =
     [(InfoLevel, ''retiring cloudflare worker'', [(''name'', ''entropy-worker-1-1'')]),
      (WarnLevel, ''failed to delete worker (may not exist)'',
       [(''error'', ''cloudflare delete error 404'')])] \<and>
   fst (CloudflareRetire (\<lambda>name. Some ''cloudflare delete error 404'') cloudflareOne
          (unknownEndpoint ''cloudflare'')) = None \<and>
   ctl_endpoints (cf_base (snd (CloudflareRetire (\<lambda>name. Some ''cloudflare delete error 404'')
                                  cloudflareOne (unknownEndpoint ''cloudflare'')))) =
     [workerEndpoint] \<and>
   ctl_logger (cf_base (snd (CloudflareRetire (\<lambda>name. Some ''cloudflare delete error 404'')
                               cloudflareOne (unknownEndpoint ''cloudflare'')))) =
     [(InfoLevel, ''retiring cloudflare worker'', [(''name'', ''nonexistent'')]),
      (WarnLevel, ''failed to delete worker (may not exist)'',
       [(''error'', ''cloudflare delete error 404'')])] \<and>
   ctl_endpoints (aws_base awsOne) = [lambdaEndpoint] \<and>
   fst (AWSRetire (\<lambda>name. None) awsOne lambdaEndpoint) = None \<and>
   ctl_endpoints (aws_base (snd (AWSRetire (\<lambda>name. None) awsOne lambdaEndpoint))) = [] \<and>
   fst (AWSRetire (\<lambda>name. Some ''ResourceNotFoundException'') awsOne
          (unknownEndpoint ''aws'')) = None \<and>
   ctl_endpoints (aws_base (snd (AWSRetire (\<lambda>name. Some ''ResourceNotFoundException'') awsOne
                                   (unknownEndpoint ''aws'')))) = [lambdaEndpoint] \<and>
   ctl_logger (aws_base (snd (AWSRetire (\<lambda>name. Some ''ResourceNotFoundException'') awsOne
                                (unknownEndpoint ''aws'')))) =
     [(InfoLevel, ''retiring aws lambda'', [(''name'', ''nonexistent'')]),
      (WarnLevel, ''failed to delete lambda'', [(''error'', ''ResourceNotFoundException'')])]"
proof -
  note held = rotatedOnce_endpoints
  have cf: "ctl_endpoints (cf_base cloudflareOne) = [workerEndpoint]"
    "ctl_logger (cf_base cloudflareOne) = []"
    by (simp_all add: cloudflareOne_def testCloudflare_def NewCloudflareController_def
        NewNoOpController_def)
  have aws: "ctl_endpoints (aws_base awsOne) = [lambdaEndpoint]"
    "ctl_logger (aws_base awsOne) = []"
    by (simp_all add: awsOne_def testAWS_def NewAWSController_def NewNoOpController_def)
  have u: "ep_ID (unknownEndpoint ''noop'') = ''nonexistent''"
    "ep_Provider (unknownEndpoint ''noop'') = ''noop''"
    "ep_ID (unknownEndpoint ''cloudflare'') = ''nonexistent''"
    "ep_Provider (unknownEndpoint ''cloudflare'') = ''cloudflare''"
    "ep_ID (unknownEndpoint ''aws'') = ''nonexistent''"
    "ep_Provider (unknownEndpoint ''aws'') = ''aws''"
    by (simp_all add: unknownEndpoint_def)
  have ids: "ep_ID (noopEndpoint 1 0) \<noteq> ''nonexistent''"
    "ep_ID workerEndpoint = ''entropy-worker-1-1''" "ep_Provider workerEndpoint = ''cloudflare''"
    "ep_ID lambdaEndpoint = ''entropy-lambda-1-1''" "ep_Provider lambdaEndpoint = ''aws''"
    by (simp_all add: noopEndpoint_def workerEndpoint_def lambdaEndpoint_def)
  have absent: "ep_ID (unknownEndpoint ''noop'') \<notin> ep_ID ` set (ctl_endpoints rotatedOnce)"
    "ep_ID (unknownEndpoint ''noop'') \<notin> ep_ID ` set (ctl_endpoints (cf_base cloudflareOne))"
    "ep_ID (unknownEndpoint ''noop'') \<notin> ep_ID ` set (ctl_endpoints (aws_base awsOne))"
    "ep_ID (unknownEndpoint ''cloudflare'') \<notin> ep_ID ` set (ctl_endpoints (cf_base cloudflareOne))"
    "ep_ID (unknownEndpoint ''aws'') \<notin> ep_ID ` set (ctl_endpoints (aws_base awsOne))"
    using ids by (simp_all add: held cf aws u)
  have old: "IsExpired (noopEndpoint 1 0) (2 * Hour)"
    by (simp add: IsExpired_def noopEndpoint_def Hour_def)
  have i1: "Retire rotatedOnce (unknownEndpoint ''noop'') =
      (Some (EndpointNotFound ''nonexistent''), rotatedOnce)"
    using retire_unknown_endpoint [of rotatedOnce "unknownEndpoint ''noop''" 0
        "\<lambda>name. None" cloudflareOne "\<lambda>name. None" awsOne] absent(1)
    by (simp add: u prod_eq_iff)
  have i1c: "Retire (cf_base cloudflareOne) (unknownEndpoint ''noop'') =
      (Some (EndpointNotFound ''nonexistent''), cf_base cloudflareOne)"
    using retire_unknown_endpoint [of "cf_base cloudflareOne" "unknownEndpoint ''noop''" 0
        "\<lambda>name. None" cloudflareOne "\<lambda>name. None" awsOne] absent(2)
    by (simp add: u prod_eq_iff)
  have i1a: "Retire (aws_base awsOne) (unknownEndpoint ''noop'') =
      (Some (EndpointNotFound ''nonexistent''), aws_base awsOne)"
    using retire_unknown_endpoint [of "aws_base awsOne" "unknownEndpoint ''noop''" 0
        "\<lambda>name. None" cloudflareOne "\<lambda>name. None" awsOne] absent(3)
    by (simp add: u prod_eq_iff)
  have i2: "CloudflareRetire (\<lambda>name. None) cloudflareOne (unknownEndpoint ''noop'') =
      (Some (EndpointNotFound ''nonexistent''), cloudflareOne)"
    "AWSRetire (\<lambda>name. None) awsOne (unknownEndpoint ''noop'') =
      (Some (EndpointNotFound ''nonexistent''), awsOne)"
    using retire_unknown_endpoint [of rotatedOnce "unknownEndpoint ''noop''" 0
        "\<lambda>name. None" cloudflareOne "\<lambda>name. None" awsOne] i1c i1a
    by (simp_all add: u)
  have i3: "ep_ID (noopEndpoint 1 0) \<notin> ep_ID ` set (ActiveEndpoints rotatedOnce (2 * Hour))"
    "fst (Retire rotatedOnce (noopEndpoint 1 0)) = None"
    using retire_unknown_endpoint [of rotatedOnce "noopEndpoint 1 0" "2 * Hour"
        "\<lambda>name. None" cloudflareOne "\<lambda>name. None" awsOne] old
    by (simp_all add: held)
  have i3a: "ActiveEndpoints rotatedOnce (2 * Hour) = []"
    using old by (simp add: ActiveEndpoints_def held)
  have i3b: "ctl_endpoints (snd (Retire rotatedOnce (noopEndpoint 1 0))) = []"
    by (simp add: Retire_def held ctlLog_def)
  have r: "ctl_endpoints (snd (Retire (cf_base cloudflareOne) workerEndpoint)) = []"
    "ctl_endpoints (snd (Retire (cf_base cloudflareOne) (unknownEndpoint ''cloudflare''))) =
       [workerEndpoint]"
    "ctl_endpoints (snd (Retire (aws_base awsOne) lambdaEndpoint)) = []"
    "ctl_endpoints (snd (Retire (aws_base awsOne) (unknownEndpoint ''aws''))) = [lambdaEndpoint]"
    by (simp_all add: Retire_def cf aws ctlLog_def u ids)
  have i4: "fst (CloudflareRetire (\<lambda>name. Some ''cloudflare delete error 404'') cloudflareOne
          workerEndpoint) = None"
    "ctl_endpoints (cf_base (snd (CloudflareRetire (\<lambda>name. Some ''cloudflare delete error 404'')
                                  cloudflareOne workerEndpoint))) = []"
    "ctl_logger (cf_base (snd (CloudflareRetire (\<lambda>name. Some ''cloudflare delete error 404'')
                               cloudflareOne workerEndpoint))) =
     [(InfoLevel, ''retiring cloudflare worker'', [(''name'', ''entropy-worker-1-1'')]),
      (WarnLevel, ''failed to delete worker (may not exist)'',
       [(''error'', ''cloudflare delete error 404'')])]"
    using retire_unknown_endpoint [of rotatedOnce workerEndpoint 0
        "\<lambda>name. Some ''cloudflare delete error 404''" cloudflareOne "\<lambda>name. None" awsOne]
    by (simp_all add: ids r cf)
  have i5: "fst (CloudflareRetire (\<lambda>name. Some ''cloudflare delete error 404'') cloudflareOne
          (unknownEndpoint ''cloudflare'')) = None"
    "ctl_endpoints (cf_base (snd (CloudflareRetire (\<lambda>name. Some ''cloudflare delete error 404'')
                                  cloudflareOne (unknownEndpoint ''cloudflare'')))) =
     [workerEndpoint]"
    "ctl_logger (cf_base (snd (CloudflareRetire (\<lambda>name. Some ''cloudflare delete error 404'')
                               cloudflareOne (unknownEndpoint ''cloudflare'')))) =
     [(InfoLevel, ''retiring cloudflare worker'', [(''name'', ''nonexistent'')]),
      (WarnLevel, ''failed to delete worker (may not exist)'',
       [(''error'', ''cloudflare delete error 404'')])]"
    using retire_unknown_endpoint [of rotatedOnce "unknownEndpoint ''cloudflare''" 0
        "\<lambda>name. Some ''cloudflare delete error 404''" cloudflareOne "\<lambda>name. None" awsOne]
    by (simp_all add: u r cf)
  have i6: "fst (AWSRetire (\<lambda>name. None) awsOne lambdaEndpoint) = None"
    "ctl_endpoints (aws_base (snd (AWSRetire (\<lambda>name. None) awsOne lambdaEndpoint))) = []"
    using retire_unknown_endpoint [of rotatedOnce lambdaEndpoint 0
        "\<lambda>name. None" cloudflareOne "\<lambda>name. None" awsOne]
    by (simp_all add: ids r aws)
  have i7: "fst (AWSRetire (\<lambda>name. Some ''ResourceNotFoundException'') awsOne
          (unknownEndpoint ''aws'')) = None"
    "ctl_endpoints (aws_base (snd (AWSRetire (\<lambda>name. Some ''ResourceNotFoundException'') awsOne
                                   (unknownEndpoint ''aws'')))) = [lambdaEndpoint]"
    "ctl_logger (aws_base (snd (AWSRetire (\<lambda>name. Some ''ResourceNotFoundException'') awsOne
                                (unknownEndpoint ''aws'')))) =
     [(InfoLevel, ''retiring aws lambda'', [(''name'', ''nonexistent'')]),
      (WarnLevel, ''failed to delete lambda'', [(''error'', ''ResourceNotFoundException'')])]"
    using retire_unknown_endpoint [of rotatedOnce "unknownEndpoint ''aws''" 0
        "\<lambda>name. None" cloudflareOne "\<lambda>name. Some ''ResourceNotFoundException''" awsOne]
    by (simp_all add: u r aws)
  from held absent(1) i1 i2 old i3a i3(2) i3b cf(1) i4 i5 aws(1) i6 i7 show ?thesis
    by (intro conjI)
qed

text \<open>
  On a new Cloudflare controller, which has no active endpoint, \<open>Retire\<close> of an
  endpoint tagged \<open>cloudflare\<close> that the controller never made returns nil, also when
  the provider answers with an error; likewise for AWS. On the local controller,
  \<open>Retire\<close> of the endpoint made at time 0 returns nil two hours later, when the
  controller has no active endpoint.
\<close>

theorem retire_unknown_endpoint_counterexample:
  "ep_ID (unknownEndpoint ''cloudflare'')
     \<notin> ep_ID ` set (ctl_endpoints (cf_base testCloudflare)) \<and>
   fst (CloudflareRetire (\<lambda>name. Some ''cloudflare delete error 404'') testCloudflare
          (unknownEndpoint ''cloudflare'')) = None \<and>
   ep_ID (unknownEndpoint ''aws'') \<notin> ep_ID ` set (ctl_endpoints (aws_base testAWS)) \<and>
   fst (AWSRetire (\<lambda>name. None) testAWS (unknownEndpoint ''aws'')) = None \<and>
   ActiveEndpoints (cf_base testCloudflare) 0 = [] \<and>
   ActiveEndpoints (aws_base testAWS) 0 = [] \<and>
   ActiveEndpoints rotatedOnce (2 * Hour) = [] \<and>
   fst (Retire rotatedOnce (noopEndpoint 1 0)) = None"
proof -
  have "IsExpired (noopEndpoint 1 0) (2 * Hour)"
    by (simp add: IsExpired_def noopEndpoint_def Hour_def)
  then have "ActiveEndpoints rotatedOnce (2 * Hour) = []"
    "fst (Retire rotatedOnce (noopEndpoint 1 0)) = None"
    by (simp_all add: ActiveEndpoints_def rotatedOnce_endpoints Retire_def)
  then show ?thesis
    by (simp add: unknownEndpoint_def testCloudflare_def testAWS_def NewCloudflareController_def
      NewAWSController_def NewNoOpController_def CloudflareRetire_def AWSRetire_def
      removeIfPresent_def ctlLog_def ActiveEndpoints_def)
qed





























section \<open>The health monitor\<close>

lemma checkEndpoint_eq:
  "checkEndpoint env results ep =
     recordProbe env
       \<lparr> hr_EndpointID = ep_ID ep, hr_Healthy = False, hr_Latency = 0,
         hr_LastCheck = env_now env, hr_FailCount = previousCount results ep, hr_Error = [] \<rparr>
       (probeOutcome env ep)"
  by (simp add: checkEndpoint_def probeOutcome_def previousCount_def Let_def
      split: option.splits)

lemma checkEndpoint_success:
  "probeOutcome env ep = None \<Longrightarrow>
   hr_FailCount (checkEndpoint env results ep) = 0 \<and> hr_Healthy (checkEndpoint env results ep)"
  by (simp add: checkEndpoint_eq recordProbe_def)

lemma checkEndpoint_failure:
  "probeOutcome env ep = Some msg \<Longrightarrow>
   hr_FailCount (checkEndpoint env results ep) = wrap64 (previousCount results ep + 1) \<and>
   \<not> hr_Healthy (checkEndpoint env results ep) \<and>
   hr_Error (checkEndpoint env results ep) = msg"
  by (simp add: checkEndpoint_eq recordProbe_def)

lemma checkOne_results:
  "hc_results (checkOne env hc ep) =
     (hc_results hc)(ep_ID ep \<mapsto> checkEndpoint env (hc_results hc) ep)"
  by (simp add: checkOne_def Let_def)

lemma checkOne_spawned:
  "hc_spawned (checkOne env hc ep) =
     hc_spawned hc @
     (if \<not> hr_Healthy (checkEndpoint env (hc_results hc) ep) \<and>
         3 \<le> hr_FailCount (checkEndpoint env (hc_results hc) ep)
      then [[CallRetire ep, CallRotate]] else [])"
  by (simp add: checkOne_def Let_def)

lemma checkOne_countersOK:
  assumes "countersOK n hc" "n + 1 < 2 ^ 63" "0 \<le> n"
  shows "countersOK (n + 1) (checkOne env hc ep)"
proof -
  have prev: "0 \<le> previousCount (hc_results hc) ep" "previousCount (hc_results hc) ep \<le> n"
    using assms(1,3) by (auto simp add: previousCount_def countersOK_def split: option.splits)
  have n0: "0 \<le> n" by (rule assms(3))
  have w: "wrap64 (previousCount (hc_results hc) ep + 1) = previousCount (hc_results hc) ep + 1"
    using prev assms(2) by (intro wrap64_id) simp_all
  have new: "0 \<le> hr_FailCount (checkEndpoint env (hc_results hc) ep) \<and>
             hr_FailCount (checkEndpoint env (hc_results hc) ep) \<le> n + 1 \<and>
             (hr_FailCount (checkEndpoint env (hc_results hc) ep) = 0 \<longrightarrow>
              hr_Healthy (checkEndpoint env (hc_results hc) ep))"
  proof (cases "probeOutcome env ep")
    case None
    from checkEndpoint_success [OF None, of "hc_results hc"] n0 show ?thesis by simp
  next
    case (Some msg)
    from checkEndpoint_failure [OF Some, of "hc_results hc"] prev show ?thesis
      by (simp add: w)
  qed
  show ?thesis
    unfolding countersOK_def checkOne_results
  proof (intro allI impI)
    fix ident r
    assume a: "((hc_results hc)(ep_ID ep \<mapsto> checkEndpoint env (hc_results hc) ep)) ident = Some r"
    show "0 \<le> hr_FailCount r \<and> hr_FailCount r \<le> n + 1 \<and>
          (hr_FailCount r = 0 \<longrightarrow> hr_Healthy r)"
    proof (cases "ident = ep_ID ep")
      case True
      with a new show ?thesis by simp
    next
      case False
      with a have "hc_results hc ident = Some r" by simp
      with assms(1) show ?thesis
        by (fastforce simp add: countersOK_def)
    qed
  qed
qed

lemma checkAll_countersOK:
  "countersOK n hc \<Longrightarrow> n + int (length endpoints) < 2 ^ 63 \<Longrightarrow> 0 \<le> n \<Longrightarrow>
   countersOK (n + int (length endpoints)) (checkAll env hc endpoints)"
proof (induction endpoints arbitrary: n hc)
  case Nil
  then show ?case by simp
next
  case (Cons ep endpoints)
  from Cons.prems have "n + 1 < 2 ^ 63" by simp
  from checkOne_countersOK [OF Cons.prems(1) this Cons.prems(3)]
  have "countersOK (n + 1) (checkOne env hc ep)" .
  moreover from Cons.prems(2) have "n + 1 + int (length endpoints) < 2 ^ 63" by simp
  moreover from Cons.prems(3) have "0 \<le> n + 1" by simp
  ultimately have "countersOK (n + 1 + int (length endpoints))
                     (checkAll env (checkOne env hc ep) endpoints)"
    by (rule Cons.IH)
  then show ?case by (simp add: add.assoc)
qed

lemma runChecks_countersOK:
  "countersOK n hc \<Longrightarrow> n + int (probeCount ticks) < 2 ^ 63 \<Longrightarrow> 0 \<le> n \<Longrightarrow>
   countersOK (n + int (probeCount ticks)) (runChecks hc ticks)"
proof (induction ticks arbitrary: n hc)
  case Nil
  then show ?case by simp
next
  case (Cons tick ticks)
  obtain env endpoints where tick: "tick = (env, endpoints)" by (cases tick)
  from Cons.prems(2) tick have "n + int (length endpoints) < 2 ^ 63" by simp
  from checkAll_countersOK [OF Cons.prems(1) this Cons.prems(3)]
  have "countersOK (n + int (length endpoints)) (checkAll env hc endpoints)" .
  moreover from Cons.prems(2) tick
  have "n + int (length endpoints) + int (probeCount ticks) < 2 ^ 63" by simp
  moreover from Cons.prems(3) have "0 \<le> n + int (length endpoints)" by simp
  ultimately have "countersOK (n + int (length endpoints) + int (probeCount ticks))
                     (runChecks (checkAll env hc endpoints) ticks)"
    by (rule Cons.IH)
  then show ?case by (simp add: tick add.assoc)
qed

lemma countersOK_new: "countersOK 0 NewHealthChecker"
  by (simp add: countersOK_def NewHealthChecker_def)

lemma checkEndpoint_cong:
  "results (ep_ID ep) = results' (ep_ID ep) \<Longrightarrow>
   checkEndpoint env results ep = checkEndpoint env results' ep"
  by (simp add: checkEndpoint_def)

lemma fresh_id:
  "distinct (map ep_ID (e # eps)) \<Longrightarrow> x \<in> set eps \<Longrightarrow> ep_ID x \<noteq> ep_ID e"
  by (metis distinct.simps(2) imageI list.simps(9) set_map)

lemma checkAll_results:
  "distinct (map ep_ID eps) \<Longrightarrow>
   hc_results (checkAll env hc eps) ident =
     (case find (\<lambda>ep. ep_ID ep = ident) eps of
        None \<Rightarrow> hc_results hc ident
      | Some ep \<Rightarrow> Some (checkEndpoint env (hc_results hc) ep))"
proof (induction eps arbitrary: hc)
  case Nil
  then show ?case by simp
next
  case (Cons e eps)
  from Cons.prems have d: "distinct (map ep_ID eps)" by simp
  from fresh_id [OF Cons.prems] have n: "\<forall>x \<in> set eps. ep_ID x \<noteq> ep_ID e" by blast
  show ?case
  proof (cases "ep_ID e = ident")
    case True
    with n have "find (\<lambda>ep. ep_ID ep = ident) eps = None"
      by (auto simp add: find_None_iff)
    with Cons.IH [OF d, of "checkOne env hc e"] True show ?thesis
      by (simp add: checkOne_results)
  next
    case False
    have "\<And>ep. ep \<in> set eps \<Longrightarrow>
        checkEndpoint env (hc_results (checkOne env hc e)) ep = checkEndpoint env (hc_results hc) ep"
      using n by (intro checkEndpoint_cong) (auto simp add: checkOne_results)
    moreover have "\<And>ep. find (\<lambda>ep. ep_ID ep = ident) eps = Some ep \<Longrightarrow> ep \<in> set eps"
      by (auto simp add: find_Some_iff)
    ultimately show ?thesis
      using Cons.IH [OF d, of "checkOne env hc e"] False
      by (auto simp add: checkOne_results split: option.splits)
  qed
qed

lemma checkAll_stored:
  assumes "distinct (map ep_ID eps)" "ep \<in> set eps"
  shows "hc_results (checkAll env hc eps) (ep_ID ep) = Some (checkEndpoint env (hc_results hc) ep)"
proof -
  from assms have "find (\<lambda>e. ep_ID e = ep_ID ep) eps = Some ep"
  proof (induction eps)
    case Nil
    then show ?case by simp
  next
    case (Cons e eps)
    then show ?case by (cases "e = ep") auto
  qed
  with checkAll_results [OF assms(1), of env hc "ep_ID ep"] show ?thesis by simp
qed

lemma checkAll_frame:
  assumes "ident \<notin> ep_ID ` set eps"
  shows "hc_results (checkAll env hc eps) ident = hc_results hc ident"
  using assms by (induction eps arbitrary: hc) (auto simp add: checkOne_results)

lemma checkOne_trigger:
  "hc_spawned (checkOne env hc ep) = hc_spawned hc @ rotationTrigger env (hc_results hc) ep"
  by (simp add: checkOne_spawned rotationTrigger_def)

lemma checkAll_spawned:
  "distinct (map ep_ID eps) \<Longrightarrow>
   hc_spawned (checkAll env hc eps) =
     hc_spawned hc @ concat (map (rotationTrigger env (hc_results hc)) eps)"
proof (induction eps arbitrary: hc)
  case Nil
  then show ?case by simp
next
  case (Cons e eps)
  from Cons.prems have d: "distinct (map ep_ID eps)" by simp
  from fresh_id [OF Cons.prems] have n: "\<forall>x \<in> set eps. ep_ID x \<noteq> ep_ID e" by blast
  have same: "\<And>ep. ep \<in> set eps \<Longrightarrow>
      rotationTrigger env (hc_results (checkOne env hc e)) ep =
      rotationTrigger env (hc_results hc) ep"
  proof -
    fix ep assume "ep \<in> set eps"
    with n have "hc_results (checkOne env hc e) (ep_ID ep) = hc_results hc (ep_ID ep)"
      by (simp add: checkOne_results)
    from checkEndpoint_cong [of "hc_results (checkOne env hc e)" ep "hc_results hc" env, OF this]
    show "rotationTrigger env (hc_results (checkOne env hc e)) ep =
      rotationTrigger env (hc_results hc) ep"
      by (simp add: rotationTrigger_def)
  qed
  have "map (rotationTrigger env (hc_results (checkOne env hc e))) eps =
      map (rotationTrigger env (hc_results hc)) eps"
    by (rule map_cong [OF refl]) (rule same)
  with Cons.IH [OF d, of "checkOne env hc e"] show ?case
    by (simp add: checkOne_trigger)
qed

lemma failures_accumulate:
  "\<forall>tick \<in> set ticks. distinct (map ep_ID (snd tick)) \<and> ep \<in> set (snd tick) \<and>
                       probeOutcome (fst tick) ep \<noteq> None \<Longrightarrow>
   0 \<le> previousCount (hc_results hc) ep \<Longrightarrow>
   previousCount (hc_results hc) ep + int (length ticks) < 2 ^ 63 \<Longrightarrow>
   previousCount (hc_results (runChecks hc ticks)) ep =
     previousCount (hc_results hc) ep + int (length ticks)"
proof (induction ticks arbitrary: hc)
  case Nil
  then show ?case by simp
next
  case (Cons tick ticks)
  obtain env eps where tick: "tick = (env, eps)" by (cases tick)
  from Cons.prems(1) tick have d: "distinct (map ep_ID eps)" and m: "ep \<in> set eps"
    and f: "probeOutcome env ep \<noteq> None" by simp_all
  from f obtain msg where msg: "probeOutcome env ep = Some msg" by auto
  define hc1 where "hc1 = checkAll env hc eps"
  have w: "wrap64 (previousCount (hc_results hc) ep + 1) = previousCount (hc_results hc) ep + 1"
    using Cons.prems(2,3) by (intro wrap64_id) simp_all
  have p1: "previousCount (hc_results hc1) ep = previousCount (hc_results hc) ep + 1"
    using checkAll_stored [OF d m, of env hc] checkEndpoint_failure [OF msg, of "hc_results hc"] w
    by (simp add: hc1_def previousCount_def)
  from Cons.prems(1) have a: "\<forall>tick \<in> set ticks. distinct (map ep_ID (snd tick)) \<and>
      ep \<in> set (snd tick) \<and> probeOutcome (fst tick) ep \<noteq> None" by simp
  from Cons.prems(2) p1 have b: "0 \<le> previousCount (hc_results hc1) ep" by simp
  from Cons.prems(3) p1 have c: "previousCount (hc_results hc1) ep + int (length ticks) < 2 ^ 63"
    by simp
  from Cons.IH [OF a b c] p1 show ?case
    by (simp add: tick hc1_def)
qed


lemma failingRound_probes:
  "probeOutcome downEnv tcpEndpoint = Some ''TCP probe failed''"
  "probeOutcome downEnv tcpEndpoint2 = Some ''TCP probe failed''"
  "distinct (map ep_ID [tcpEndpoint, tcpEndpoint2])"
  by (simp_all add: probeOutcome_def downEnv_def tcpEndpoint_def tcpEndpoint2_def)

lemma failing_round_counts:
  assumes "previousCount (hc_results hc) tcpEndpoint = k" "previousCount (hc_results hc) tcpEndpoint2 = k"
    "0 \<le> k" "k < 10"
  shows "previousCount (hc_results (checkAll downEnv hc [tcpEndpoint, tcpEndpoint2])) tcpEndpoint = k + 1"
    "previousCount (hc_results (checkAll downEnv hc [tcpEndpoint, tcpEndpoint2])) tcpEndpoint2 = k + 1"
    "hc_spawned (checkAll downEnv hc [tcpEndpoint, tcpEndpoint2]) =
       hc_spawned hc @ (if 2 \<le> k then [[CallRetire tcpEndpoint, CallRotate],
                                            [CallRetire tcpEndpoint2, CallRotate]] else [])"
proof -
  have w: "wrap64 (k + 1) = k + 1" using assms(3,4) by (intro wrap64_id) simp_all
  have r1: "hr_FailCount (checkEndpoint downEnv (hc_results hc) tcpEndpoint) = k + 1"
    "\<not> hr_Healthy (checkEndpoint downEnv (hc_results hc) tcpEndpoint)"
    using checkEndpoint_failure [OF failingRound_probes(1), of "hc_results hc"] assms(1) w
    by simp_all
  have r2: "hr_FailCount (checkEndpoint downEnv (hc_results hc) tcpEndpoint2) = k + 1"
    "\<not> hr_Healthy (checkEndpoint downEnv (hc_results hc) tcpEndpoint2)"
    using checkEndpoint_failure [OF failingRound_probes(2), of "hc_results hc"] assms(2) w
    by simp_all
  from checkAll_stored [OF failingRound_probes(3), of tcpEndpoint downEnv hc] r1
  show "previousCount (hc_results (checkAll downEnv hc [tcpEndpoint, tcpEndpoint2])) tcpEndpoint = k + 1"
    by (simp add: previousCount_def)
  from checkAll_stored [OF failingRound_probes(3), of tcpEndpoint2 downEnv hc] r2
  show "previousCount (hc_results (checkAll downEnv hc [tcpEndpoint, tcpEndpoint2])) tcpEndpoint2 = k + 1"
    by (simp add: previousCount_def)
  from checkAll_spawned [OF failingRound_probes(3), of downEnv hc] r1 r2
  show "hc_spawned (checkAll downEnv hc [tcpEndpoint, tcpEndpoint2]) =
       hc_spawned hc @ (if 2 \<le> k then [[CallRetire tcpEndpoint, CallRotate],
                                            [CallRetire tcpEndpoint2, CallRotate]] else [])"
    by (simp add: rotationTrigger_def)
qed

lemma failedFourTimes_state:
  "previousCount (hc_results failedFourTimes) tcpEndpoint = 4"
  "previousCount (hc_results failedFourTimes) tcpEndpoint2 = 4"
  "hc_spawned failedFourTimes =
     [[CallRetire tcpEndpoint, CallRotate], [CallRetire tcpEndpoint2, CallRotate],
      [CallRetire tcpEndpoint, CallRotate], [CallRetire tcpEndpoint2, CallRotate]]"
proof -
  define h1 where "h1 = checkAll downEnv NewHealthChecker [tcpEndpoint, tcpEndpoint2]"
  define h2 where "h2 = checkAll downEnv h1 [tcpEndpoint, tcpEndpoint2]"
  define h3 where "h3 = checkAll downEnv h2 [tcpEndpoint, tcpEndpoint2]"
  define h4 where "h4 = checkAll downEnv h3 [tcpEndpoint, tcpEndpoint2]"
  have f: "failedFourTimes = h4"
    by (simp add: failedFourTimes_def fourRounds_def failingRound_def h1_def h2_def h3_def h4_def)
  have s0: "previousCount (hc_results NewHealthChecker) tcpEndpoint = 0"
    "previousCount (hc_results NewHealthChecker) tcpEndpoint2 = 0"
    "hc_spawned NewHealthChecker = []"
    by (simp_all add: previousCount_def NewHealthChecker_def)
  have s1: "previousCount (hc_results h1) tcpEndpoint = 1"
    "previousCount (hc_results h1) tcpEndpoint2 = 1" "hc_spawned h1 = []"
    using failing_round_counts [OF s0(1,2)] s0(3) by (simp_all add: h1_def)
  have s2: "previousCount (hc_results h2) tcpEndpoint = 2"
    "previousCount (hc_results h2) tcpEndpoint2 = 2" "hc_spawned h2 = []"
    using failing_round_counts [OF s1(1,2)] s1(3) by (simp_all add: h2_def)
  have s3: "previousCount (hc_results h3) tcpEndpoint = 3"
    "previousCount (hc_results h3) tcpEndpoint2 = 3"
    "hc_spawned h3 = [[CallRetire tcpEndpoint, CallRotate], [CallRetire tcpEndpoint2, CallRotate]]"
    using failing_round_counts [OF s2(1,2)] s2(3) by (simp_all add: h3_def)
  have s4: "previousCount (hc_results h4) tcpEndpoint = 4"
    "previousCount (hc_results h4) tcpEndpoint2 = 4"
    "hc_spawned h4 = [[CallRetire tcpEndpoint, CallRotate], [CallRetire tcpEndpoint2, CallRotate],
      [CallRetire tcpEndpoint, CallRotate], [CallRetire tcpEndpoint2, CallRotate]]"
    using failing_round_counts [OF s3(1,2)] s3(3) by (simp_all add: h4_def)
  from s4 f show "previousCount (hc_results failedFourTimes) tcpEndpoint = 4"
    "previousCount (hc_results failedFourTimes) tcpEndpoint2 = 4"
    "hc_spawned failedFourTimes =
     [[CallRetire tcpEndpoint, CallRotate], [CallRetire tcpEndpoint2, CallRotate],
      [CallRetire tcpEndpoint, CallRotate], [CallRetire tcpEndpoint2, CallRotate]]"
    by simp_all
qed

text \<open>
  Claim C5. For the probe that \<open>checkEndpoint\<close> runs on an endpoint: when it succeeds
  the counter of the result is 0 and the result is healthy; when it fails the counter
  is the previous counter plus one (0 plus one when the endpoint has no result yet;
  the sum is a 64-bit integer), the result is unhealthy and carries the error text.
  \<open>checkAll\<close> stores the result under the identifier of the endpoint and leaves the
  results stored under every other identifier as they are. When a failure takes the
  counter from 2 to 3 it starts one goroutine that calls \<open>Retire\<close> of the endpoint and
  then \<open>Rotate\<close>; it starts none while the counter is below 3, and in general it
  starts that goroutine exactly when the result is unhealthy with a counter of at
  least 3. In a round over endpoints with distinct identifiers each endpoint is judged
  against its own previous result, and the goroutines of the round are those of its
  endpoints, in order. Hence over rounds in which the probe of an endpoint always
  fails its counter grows by one per round, however many other endpoints are probed.
  Consequently, in every state the monitor reaches from its initial state (by fewer
  than \<open>2^63\<close> probes, so that the counter cannot wrap), every stored counter is at least
  0, and a counter of 0 belongs to a healthy result.
\<close>

theorem health_counters:
  "(probeOutcome env ep = None \<longrightarrow>
      hr_FailCount (checkEndpoint env results ep) = 0 \<and>
      hr_Healthy (checkEndpoint env results ep)) \<and>
   (probeOutcome env ep = Some msg \<longrightarrow>
      hr_FailCount (checkEndpoint env results ep) = wrap64 (previousCount results ep + 1) \<and>
      \<not> hr_Healthy (checkEndpoint env results ep) \<and>
      hr_Error (checkEndpoint env results ep) = msg) \<and>
   hc_results (checkOne env hc ep) (ep_ID ep) = Some (checkEndpoint env (hc_results hc) ep) \<and>
   (ident \<noteq> ep_ID ep \<longrightarrow> hc_results (checkOne env hc ep) ident = hc_results hc ident) \<and>
   (probeOutcome env ep = Some msg \<and> previousCount (hc_results hc) ep = 2 \<longrightarrow>
      hr_FailCount (checkEndpoint env (hc_results hc) ep) = 3 \<and>
      hc_spawned (checkOne env hc ep) = hc_spawned hc @ [[CallRetire ep, CallRotate]]) \<and>
   (hr_FailCount (checkEndpoint env (hc_results hc) ep) < 3 \<longrightarrow>
      hc_spawned (checkOne env hc ep) = hc_spawned hc) \<and>
   hc_spawned (checkOne env hc ep) = hc_spawned hc @ rotationTrigger env (hc_results hc) ep \<and>
   (ident \<notin> ep_ID ` set eps \<longrightarrow> hc_results (checkAll env hc eps) ident = hc_results hc ident) \<and>
   (distinct (map ep_ID eps) \<longrightarrow>
      (\<forall>e \<in> set eps.
         hc_results (checkAll env hc eps) (ep_ID e) = Some (checkEndpoint env (hc_results hc) e)) \<and>
      hc_spawned (checkAll env hc eps) =
        hc_spawned hc @ concat (map (rotationTrigger env (hc_results hc)) eps)) \<and>
   ((\<forall>tick \<in> set rounds. distinct (map ep_ID (snd tick)) \<and> ep \<in> set (snd tick) \<and>
                           probeOutcome (fst tick) ep \<noteq> None) \<and>
    0 \<le> previousCount (hc_results hc) ep \<and>
    previousCount (hc_results hc) ep + int (length rounds) < 2 ^ 63 \<longrightarrow>
      previousCount (hc_results (runChecks hc rounds)) ep =
        previousCount (hc_results hc) ep + int (length rounds)) \<and>
   (int (probeCount ticks) < 2 ^ 63 \<longrightarrow>
      (\<forall>ident r. hc_results (runChecks NewHealthChecker ticks) ident = Some r \<longrightarrow>
         0 \<le> hr_FailCount r \<and> (hr_FailCount r = 0 \<longrightarrow> hr_Healthy r)))"
proof -
  have trigger: "probeOutcome env ep = Some msg \<and> previousCount (hc_results hc) ep = 2 \<longrightarrow>
      hr_FailCount (checkEndpoint env (hc_results hc) ep) = 3 \<and>
      hc_spawned (checkOne env hc ep) = hc_spawned hc @ [[CallRetire ep, CallRotate]]"
  proof
    assume a: "probeOutcome env ep = Some msg \<and> previousCount (hc_results hc) ep = 2"
    from checkEndpoint_failure [of env ep msg "hc_results hc"] a
    have "hr_FailCount (checkEndpoint env (hc_results hc) ep) = 3"
      "\<not> hr_Healthy (checkEndpoint env (hc_results hc) ep)"
      by (simp_all add: wrap64_def)
    then show "hr_FailCount (checkEndpoint env (hc_results hc) ep) = 3 \<and>
      hc_spawned (checkOne env hc ep) = hc_spawned hc @ [[CallRetire ep, CallRotate]]"
      by (simp add: checkOne_spawned)
  qed
  have inv: "int (probeCount ticks) < 2 ^ 63 \<longrightarrow>
      (\<forall>ident r. hc_results (runChecks NewHealthChecker ticks) ident = Some r \<longrightarrow>
         0 \<le> hr_FailCount r \<and> (hr_FailCount r = 0 \<longrightarrow> hr_Healthy r))"
  proof
    assume "int (probeCount ticks) < 2 ^ 63"
    then have "0 + int (probeCount ticks) < 2 ^ 63" by simp
    from runChecks_countersOK [OF countersOK_new this]
    have "countersOK (0 + int (probeCount ticks)) (runChecks NewHealthChecker ticks)"
      by simp
    then
    show "\<forall>ident r. hc_results (runChecks NewHealthChecker ticks) ident = Some r \<longrightarrow>
         0 \<le> hr_FailCount r \<and> (hr_FailCount r = 0 \<longrightarrow> hr_Healthy r)"
      by (simp add: countersOK_def)
  qed
  have ok: "probeOutcome env ep = None \<longrightarrow>
      hr_FailCount (checkEndpoint env results ep) = 0 \<and>
      hr_Healthy (checkEndpoint env results ep)"
    using checkEndpoint_success [of env ep results] by blast
  have failed: "probeOutcome env ep = Some msg \<longrightarrow>
      hr_FailCount (checkEndpoint env results ep) = wrap64 (previousCount results ep + 1) \<and>
      \<not> hr_Healthy (checkEndpoint env results ep) \<and>
      hr_Error (checkEndpoint env results ep) = msg"
    using checkEndpoint_failure [of env ep msg results] by blast
  have stored: "hc_results (checkOne env hc ep) (ep_ID ep) =
      Some (checkEndpoint env (hc_results hc) ep)"
    by (simp add: checkOne_results)
  have frame: "ident \<noteq> ep_ID ep \<longrightarrow> hc_results (checkOne env hc ep) ident = hc_results hc ident"
    by (simp add: checkOne_results)
  have quiet: "hr_FailCount (checkEndpoint env (hc_results hc) ep) < 3 \<longrightarrow>
      hc_spawned (checkOne env hc ep) = hc_spawned hc"
    by (simp add: checkOne_spawned)
  have exact: "hc_spawned (checkOne env hc ep) =
      hc_spawned hc @ rotationTrigger env (hc_results hc) ep"
    by (rule checkOne_trigger)
  have others: "ident \<notin> ep_ID ` set eps \<longrightarrow>
      hc_results (checkAll env hc eps) ident = hc_results hc ident"
    using checkAll_frame [of ident eps env hc] by blast
  have round: "distinct (map ep_ID eps) \<longrightarrow>
      (\<forall>e \<in> set eps.
         hc_results (checkAll env hc eps) (ep_ID e) = Some (checkEndpoint env (hc_results hc) e)) \<and>
      hc_spawned (checkAll env hc eps) =
        hc_spawned hc @ concat (map (rotationTrigger env (hc_results hc)) eps)"
    using checkAll_stored [of eps _ env hc] checkAll_spawned [of eps env hc] by blast
  have accumulate: "(\<forall>tick \<in> set rounds. distinct (map ep_ID (snd tick)) \<and> ep \<in> set (snd tick) \<and>
                           probeOutcome (fst tick) ep \<noteq> None) \<and>
    0 \<le> previousCount (hc_results hc) ep \<and>
    previousCount (hc_results hc) ep + int (length rounds) < 2 ^ 63 \<longrightarrow>
      previousCount (hc_results (runChecks hc rounds)) ep =
        previousCount (hc_results hc) ep + int (length rounds)"
    using failures_accumulate [of rounds ep hc] by blast
  from ok failed stored frame trigger quiet exact others round accumulate inv show ?thesis
    by (intro conjI)
qed


theorem health_counters_witness:
  "probeOutcome upEnv tcpEndpoint = None \<and>
   hr_FailCount (checkEndpoint upEnv (hc_results failedTwice) tcpEndpoint) = 0 \<and>
   hr_Healthy (checkEndpoint upEnv (hc_results failedTwice) tcpEndpoint) \<and>
   hc_spawned (checkOne upEnv failedTwice tcpEndpoint) = [] \<and>
   probeOutcome downEnv tcpEndpoint = Some ''TCP probe failed'' \<and>
   previousCount (hc_results failedTwice) tcpEndpoint = 2 \<and>
   hr_FailCount (checkEndpoint downEnv (hc_results failedTwice) tcpEndpoint) = 3 \<and>
   \<not> hr_Healthy (checkEndpoint downEnv (hc_results failedTwice) tcpEndpoint) \<and>
   hc_spawned (checkOne downEnv failedTwice tcpEndpoint) = [[CallRetire tcpEndpoint, CallRotate]] \<and>
   int (probeCount twoFailures) < 2 ^ 63 \<and>
   (case hc_results (runChecks NewHealthChecker twoFailures) ''noop-1'' of
      None \<Rightarrow> False
    | Some r \<Rightarrow> 0 \<le> hr_FailCount r \<and> hr_FailCount r \<noteq> 0) \<and>
   distinct (map ep_ID [tcpEndpoint, tcpEndpoint2]) \<and>
   probeOutcome downEnv tcpEndpoint2 = Some ''TCP probe failed'' \<and>
   previousCount (hc_results failedFourTimes) tcpEndpoint = 4 \<and>
   previousCount (hc_results failedFourTimes) tcpEndpoint2 = 4 \<and>
   previousCount (hc_results (checkOne upEnv failedFourTimes tcpEndpoint)) tcpEndpoint2 = 4 \<and>
   previousCount (hc_results (checkAll downEnv failedFourTimes [tcpEndpoint, tcpEndpoint2]))
     tcpEndpoint = 5 \<and>
   previousCount (hc_results (checkAll downEnv failedFourTimes [tcpEndpoint, tcpEndpoint2]))
     tcpEndpoint2 = 5 \<and>
   hc_spawned (checkAll downEnv failedFourTimes [tcpEndpoint, tcpEndpoint2]) =
     [[CallRetire tcpEndpoint, CallRotate], [CallRetire tcpEndpoint2, CallRotate],
      [CallRetire tcpEndpoint, CallRotate], [CallRetire tcpEndpoint2, CallRotate],
      [CallRetire tcpEndpoint, CallRotate], [CallRetire tcpEndpoint2, CallRotate]] \<and>
   previousCount (hc_results (runChecks NewHealthChecker (failingRound # fourRounds)))
     tcpEndpoint = 5 \<and>
   previousCount (hc_results (runChecks NewHealthChecker (failingRound # fourRounds)))
     tcpEndpoint2 = 5"
proof -
  have up: "probeOutcome upEnv tcpEndpoint = None"
    by (simp add: probeOutcome_def upEnv_def tcpEndpoint_def)
  have down: "probeOutcome downEnv tcpEndpoint = Some ''TCP probe failed''"
    by (rule failingRound_probes)
  have down2: "probeOutcome downEnv tcpEndpoint2 = Some ''TCP probe failed''"
    by (rule failingRound_probes)
  have dist: "distinct (map ep_ID [tcpEndpoint, tcpEndpoint2])"
    by (rule failingRound_probes)
  have ids: "ep_ID tcpEndpoint = ''noop-1''" "ep_ID tcpEndpoint2 = ''noop-2''"
    by (simp_all add: tcpEndpoint_def tcpEndpoint2_def)
  have stored: "hc_results failedTwice ''noop-1'' =
      Some (checkEndpoint downEnv
              (hc_results (checkOne downEnv NewHealthChecker tcpEndpoint)) tcpEndpoint)"
    by (simp add: failedTwice_def twoFailures_def checkOne_results tcpEndpoint_def)
  have first: "hr_FailCount (checkEndpoint downEnv (hc_results NewHealthChecker) tcpEndpoint) = 1"
    using checkEndpoint_failure [OF down, of "hc_results NewHealthChecker"]
    by (simp add: previousCount_def NewHealthChecker_def wrap64_def)
  have second: "hr_FailCount (checkEndpoint downEnv
      (hc_results (checkOne downEnv NewHealthChecker tcpEndpoint)) tcpEndpoint) = 2"
    using checkEndpoint_failure [OF down,
        of "hc_results (checkOne downEnv NewHealthChecker tcpEndpoint)"] first
    by (simp add: previousCount_def checkOne_results wrap64_def)
  have prev: "previousCount (hc_results failedTwice) tcpEndpoint = 2"
    using stored second by (simp add: previousCount_def tcpEndpoint_def)
  have none: "hc_spawned failedTwice = []"
    using first second
    by (simp add: failedTwice_def twoFailures_def checkOne_spawned NewHealthChecker_def)
  have few: "int (probeCount twoFailures) < 2 ^ 63"
    by (simp add: twoFailures_def)
  have nonzero: "hr_FailCount (the (hc_results failedTwice ''noop-1'')) \<noteq> 0"
    using stored second by simp
  note four = failedFourTimes_state
  have new: "previousCount (hc_results NewHealthChecker) tcpEndpoint = 0"
    "previousCount (hc_results NewHealthChecker) tcpEndpoint2 = 0"
    by (simp_all add: previousCount_def NewHealthChecker_def)
  have rounds: "\<forall>tick \<in> set (failingRound # fourRounds).
      distinct (map ep_ID (snd tick)) \<and> tcpEndpoint \<in> set (snd tick) \<and>
      probeOutcome (fst tick) tcpEndpoint \<noteq> None"
    "\<forall>tick \<in> set (failingRound # fourRounds).
      distinct (map ep_ID (snd tick)) \<and> tcpEndpoint2 \<in> set (snd tick) \<and>
      probeOutcome (fst tick) tcpEndpoint2 \<noteq> None"
    "length (failingRound # fourRounds) = 5"
    using dist down down2 by (simp_all add: fourRounds_def failingRound_def)
  from health_counters [of upEnv tcpEndpoint "hc_results failedTwice" "[]" failedTwice "[]" "[]" "[]" twoFailures]
    up few stored
  have a: "hr_FailCount (checkEndpoint upEnv (hc_results failedTwice) tcpEndpoint) = 0"
    "hr_Healthy (checkEndpoint upEnv (hc_results failedTwice) tcpEndpoint)"
    "hc_spawned (checkOne upEnv failedTwice tcpEndpoint) = hc_spawned failedTwice"
    "0 \<le> hr_FailCount (the (hc_results failedTwice ''noop-1''))"
    by (simp_all add: failedTwice_def rotationTrigger_def)
  from health_counters [of downEnv tcpEndpoint "hc_results failedTwice" "''TCP probe failed''" failedTwice "[]" "[]" "[]" "[]"]
    down prev
  have b: "hr_FailCount (checkEndpoint downEnv (hc_results failedTwice) tcpEndpoint) = 3"
    "\<not> hr_Healthy (checkEndpoint downEnv (hc_results failedTwice) tcpEndpoint)"
    "hc_spawned (checkOne downEnv failedTwice tcpEndpoint) =
       hc_spawned failedTwice @ [[CallRetire tcpEndpoint, CallRotate]]"
    by (simp_all add: rotationTrigger_def)
  from health_counters [of upEnv tcpEndpoint "Map.empty" "[]" failedFourTimes "''noop-2''" "[]" "[]" "[]"] four(2)
  have c: "previousCount (hc_results (checkOne upEnv failedFourTimes tcpEndpoint)) tcpEndpoint2 = 4"
    by (simp add: ids previousCount_def)
  have f1: "hr_FailCount (checkEndpoint downEnv (hc_results failedFourTimes) tcpEndpoint) = 5"
    "\<not> hr_Healthy (checkEndpoint downEnv (hc_results failedFourTimes) tcpEndpoint)"
    using health_counters [of downEnv tcpEndpoint "hc_results failedFourTimes" "''TCP probe failed''" NewHealthChecker "[]" "[]" "[]" "[]"] down four(1)
    by (simp_all add: wrap64_def)
  have f2: "hr_FailCount (checkEndpoint downEnv (hc_results failedFourTimes) tcpEndpoint2) = 5"
    "\<not> hr_Healthy (checkEndpoint downEnv (hc_results failedFourTimes) tcpEndpoint2)"
    using health_counters [of downEnv tcpEndpoint2 "hc_results failedFourTimes" "''TCP probe failed''" NewHealthChecker "[]" "[]" "[]" "[]"] down2 four(2)
    by (simp_all add: wrap64_def)
  from health_counters [of downEnv tcpEndpoint "Map.empty" "[]" failedFourTimes "[]" "[tcpEndpoint, tcpEndpoint2]" "[]" "[]"] dist
  have d: "hc_results (checkAll downEnv failedFourTimes [tcpEndpoint, tcpEndpoint2]) ''noop-1'' =
        Some (checkEndpoint downEnv (hc_results failedFourTimes) tcpEndpoint)"
    "hc_results (checkAll downEnv failedFourTimes [tcpEndpoint, tcpEndpoint2]) ''noop-2'' =
        Some (checkEndpoint downEnv (hc_results failedFourTimes) tcpEndpoint2)"
    "hc_spawned (checkAll downEnv failedFourTimes [tcpEndpoint, tcpEndpoint2]) =
       hc_spawned failedFourTimes @
       rotationTrigger downEnv (hc_results failedFourTimes) tcpEndpoint @
       rotationTrigger downEnv (hc_results failedFourTimes) tcpEndpoint2"
    by (simp_all add: ids del: checkAll.simps)
  from d(1,2) f1 f2
  have e: "previousCount (hc_results (checkAll downEnv failedFourTimes [tcpEndpoint, tcpEndpoint2]))
     tcpEndpoint = 5"
    "previousCount (hc_results (checkAll downEnv failedFourTimes [tcpEndpoint, tcpEndpoint2]))
     tcpEndpoint2 = 5"
    by (simp_all add: previousCount_def ids del: checkAll.simps)
  from d(3) f1 f2 four(3)
  have g: "hc_spawned (checkAll downEnv failedFourTimes [tcpEndpoint, tcpEndpoint2]) =
     [[CallRetire tcpEndpoint, CallRotate], [CallRetire tcpEndpoint2, CallRotate],
      [CallRetire tcpEndpoint, CallRotate], [CallRetire tcpEndpoint2, CallRotate],
      [CallRetire tcpEndpoint, CallRotate], [CallRetire tcpEndpoint2, CallRotate]]"
    by (simp add: rotationTrigger_def del: checkAll.simps)
  from health_counters [of upEnv tcpEndpoint "Map.empty" "[]" NewHealthChecker "[]" "[]" "failingRound # fourRounds" "[]"] rounds(1,3) new(1)
  have h1: "previousCount (hc_results (runChecks NewHealthChecker (failingRound # fourRounds)))
     tcpEndpoint = 5"
    by (simp del: runChecks.simps)
  from health_counters [of upEnv tcpEndpoint2 "Map.empty" "[]" NewHealthChecker "[]" "[]" "failingRound # fourRounds" "[]"] rounds(2,3) new(2)
  have h2: "previousCount (hc_results (runChecks NewHealthChecker (failingRound # fourRounds)))
     tcpEndpoint2 = 5"
    by (simp del: runChecks.simps)
  have old: "hr_FailCount (checkEndpoint upEnv (hc_results failedTwice) tcpEndpoint) = 0 \<and>
   hr_Healthy (checkEndpoint upEnv (hc_results failedTwice) tcpEndpoint) \<and>
   hc_spawned (checkOne upEnv failedTwice tcpEndpoint) = [] \<and>
   previousCount (hc_results failedTwice) tcpEndpoint = 2 \<and>
   hr_FailCount (checkEndpoint downEnv (hc_results failedTwice) tcpEndpoint) = 3 \<and>
   \<not> hr_Healthy (checkEndpoint downEnv (hc_results failedTwice) tcpEndpoint) \<and>
   hc_spawned (checkOne downEnv failedTwice tcpEndpoint) = [[CallRetire tcpEndpoint, CallRotate]] \<and>
   int (probeCount twoFailures) < 2 ^ 63 \<and>
   (case hc_results (runChecks NewHealthChecker twoFailures) ''noop-1'' of
      None \<Rightarrow> False
    | Some r \<Rightarrow> 0 \<le> hr_FailCount r \<and> hr_FailCount r \<noteq> 0)"
    using prev few a b none nonzero stored
    by (simp add: failedTwice_def)
  from up down old dist down2 four(1,2) c e g h1 h2 show ?thesis
    by (intro conjI) simp_all
qed

end
